theory Spec2Isabelle
  imports Complex_Main "HOL-Library.Word" "HOL-Library.Sublist"
begin

section \<open>ECMAScript strings\<close>

text \<open>
  A string of the program is a sequence of UTF-16 code units; \<open>length\<close> is what
  \<^verbatim>\<open>.length\<close> counts.  \<open>js\<close> reads an ASCII literal as such a string.
\<close>

type_synonym jschar = "16 word"
type_synonym jsstring = "jschar list"

definition js :: "string \<Rightarrow> jsstring" where
  "js s = map (\<lambda>c. word_of_nat (of_char c)) s"

text \<open>
  The class \<^verbatim>\<open>\s\<close> of a regular expression and the characters that
  \<^verbatim>\<open>trim()\<close> strips are the same set: WhiteSpace and LineTerminator of ECMA-262.
\<close>

definition isWhiteSpace :: "jschar \<Rightarrow> bool" where
  "isWhiteSpace c \<longleftrightarrow>
     c = 0x09 \<or> c = 0x0A \<or> c = 0x0B \<or> c = 0x0C \<or> c = 0x0D \<or> c = 0x20 \<or>
     c = 0xA0 \<or> c = 0x1680 \<or> (0x2000 \<le> c \<and> c \<le> 0x200A) \<or>
     c = 0x2028 \<or> c = 0x2029 \<or> c = 0x202F \<or> c = 0x205F \<or> c = 0x3000 \<or>
     c = 0xFEFF"

definition trim :: "jsstring \<Rightarrow> jsstring" where
  "trim s = rev (dropWhile isWhiteSpace (rev (dropWhile isWhiteSpace s)))"

section \<open>pdf-parser.ts: the text normalizer\<close>

text \<open>The class \<^verbatim>\<open>[.,;:!?]\<close>.\<close>

definition isPunct :: "jschar \<Rightarrow> bool" where
  "isPunct c \<longleftrightarrow>
     c = 0x2E \<or> c = 0x2C \<or> c = 0x3B \<or> c = 0x3A \<or> c = 0x21 \<or> c = 0x3F"

text \<open>
  \<^verbatim>\<open>.replace(/\s+/g, ' ')\<close>: every maximal run of white space becomes one space.
\<close>

function replaceWhitespaceRuns :: "jsstring \<Rightarrow> jsstring" where
  "replaceWhitespaceRuns [] = []"
| "replaceWhitespaceRuns (c # cs) =
     (if isWhiteSpace c then 0x20 # replaceWhitespaceRuns (dropWhile isWhiteSpace cs)
      else c # replaceWhitespaceRuns cs)"
  by pat_completeness auto
termination
  by (relation "measure length") (auto simp: length_dropWhile_le less_Suc_eq_le)

text \<open>
  The one-character classes, each replaced by a fixed character:
  \<^verbatim>\<open>/[\f\r]/g\<close> by a space, the four bullet glyphs (U+2022, U+00B7, U+2023, U+2043)
  by \<^verbatim>\<open>-\<close>, and the two quote classes, which in the source hold the straight
  quotes U+0022 and U+0027 and replace each by itself.
\<close>

definition replaceFormFeeds :: "jsstring \<Rightarrow> jsstring" where
  "replaceFormFeeds = map (\<lambda>c. if c = 0x0C \<or> c = 0x0D then 0x20 else c)"

definition replaceBullets :: "jsstring \<Rightarrow> jsstring" where
  "replaceBullets =
     map (\<lambda>c. if c = 0x2022 \<or> c = 0xB7 \<or> c = 0x2023 \<or> c = 0x2043 then 0x2D else c)"

definition replaceDoubleQuotes :: "jsstring \<Rightarrow> jsstring" where
  "replaceDoubleQuotes = map (\<lambda>c. if c = 0x22 \<or> c = 0x22 then 0x22 else c)"

definition replaceSingleQuotes :: "jsstring \<Rightarrow> jsstring" where
  "replaceSingleQuotes = map (\<lambda>c. if c = 0x27 \<or> c = 0x27 then 0x27 else c)"

text \<open>
  \<^verbatim>\<open>.replace(/\s+([.,;:!?])/g, '$1')\<close>: the leftmost match starts at a white-space
  character whose run is directly followed by a punctuation mark; the run is deleted and
  the search goes on after the mark.
\<close>

function removeSpaceBeforePunct :: "jsstring \<Rightarrow> jsstring" where
  "removeSpaceBeforePunct [] = []"
| "removeSpaceBeforePunct (c # cs) =
     (if isWhiteSpace c then
        (case dropWhile isWhiteSpace cs of
           [] \<Rightarrow> c # removeSpaceBeforePunct cs
         | p # rest \<Rightarrow>
             if isPunct p then p # removeSpaceBeforePunct rest
             else c # removeSpaceBeforePunct cs)
      else c # removeSpaceBeforePunct cs)"
  by pat_completeness auto
termination
proof (relation "measure length")
  fix c :: jschar and cs :: jsstring and p rest
  assume "dropWhile isWhiteSpace cs = p # rest"
  then have "length (p # rest) \<le> length cs"
    by (metis length_dropWhile_le)
  then show "(rest, c # cs) \<in> measure length" by simp
qed auto

text \<open>
  \<^verbatim>\<open>.replace(/([.,;:!?])([^\s])/g, '$1 $2')\<close>: a punctuation mark directly followed
  by a character that is not white space gets a space after it; both characters are
  consumed by the match, so the second one cannot start the next match.
\<close>

fun addSpaceAfterPunct :: "jsstring \<Rightarrow> jsstring" where
  "addSpaceAfterPunct [] = []"
| "addSpaceAfterPunct [c] = [c]"
| "addSpaceAfterPunct (c # d # cs) =
     (if isPunct c \<and> \<not> isWhiteSpace d then c # 0x20 # d # addSpaceAfterPunct cs
      else c # addSpaceAfterPunct (d # cs))"

definition cleanText :: "jsstring \<Rightarrow> jsstring" where
  "cleanText text =
     trim (addSpaceAfterPunct (removeSpaceBeforePunct (replaceSingleQuotes
       (replaceDoubleQuotes (replaceBullets (replaceFormFeeds
         (replaceWhitespaceRuns text)))))))"

section \<open>ECMAScript values and built-ins\<close>

text \<open>
  A number is a finite value or one of the three special values.  Quotients are taken
  exactly (the rounding of a double is not modelled) and the sign of zero is dropped.
\<close>

datatype jsnumber = Finite rat | PosInfinity | NegInfinity | NaN

text \<open>Division of two finite numbers, with the results IEEE 754 gives for a zero divisor.\<close>

definition jsDivide :: "rat \<Rightarrow> rat \<Rightarrow> jsnumber" where
  "jsDivide a b =
     (if b = 0 then (if a = 0 then NaN else if 0 < a then PosInfinity else NegInfinity)
      else Finite (a / b))"

text \<open>The relational operator \<^verbatim>\<open><\<close> on numbers: false as soon as an operand is NaN.\<close>

fun jsLess :: "jsnumber \<Rightarrow> jsnumber \<Rightarrow> bool" where
  "jsLess NaN _ = False"
| "jsLess _ NaN = False"
| "jsLess (Finite a) (Finite b) = (a < b)"
| "jsLess (Finite a) PosInfinity = True"
| "jsLess NegInfinity (Finite b) = True"
| "jsLess NegInfinity PosInfinity = True"
| "jsLess _ _ = False"

text \<open>
  The values the validator meets: what \<^verbatim>\<open>JSON.parse\<close> builds, and
  \<^verbatim>\<open>undefined\<close> for a property that is not there.  An object is the list of its own
  properties.
\<close>

datatype jsvalue =
    JUndefined
  | JNull
  | JBool bool
  | JNum jsnumber
  | JStr jsstring
  | JArr "jsvalue list"
  | JObj "(jsstring \<times> jsvalue) list"

text \<open>
  What a \<^verbatim>\<open>throw\<close> carries: an \<^verbatim>\<open>Error\<close> (of any subclass) with its message, or
  some other value, of which the program only tests \<^verbatim>\<open>instanceof Error\<close>.
\<close>

datatype thrown = Error (message: jsstring) | NonError

text \<open>
  Built-ins whose result the program's source does not determine are parameters:
  \<^item> \<open>lowerNonAscii\<close>: \<^verbatim>\<open>toLowerCase()\<close> on a string with a code unit outside ASCII;
  \<^item> \<open>numberToString\<close>, \<open>stringToNumber\<close>: the conversions between numbers and strings;
  \<^item> \<open>jsonParse\<close>: \<^verbatim>\<open>JSON.parse\<close>, which returns a value or throws a SyntaxError;
  \<^item> \<open>dateNow\<close>, \<open>randomSuffix\<close>: the texts of \<^verbatim>\<open>Date.now()\<close> and of
    \<^verbatim>\<open>Math.random().toString(36).substr(2, 9)\<close> at the moment the k-th event of a
    validation pass is built.
\<close>

record builtins =
  lowerNonAscii :: "jsstring \<Rightarrow> jsstring"
  numberToString :: "jsnumber \<Rightarrow> jsstring"
  stringToNumber :: "jsstring \<Rightarrow> jsnumber"
  jsonParse :: "jsstring \<Rightarrow> thrown + jsvalue"
  dateNow :: "nat \<Rightarrow> jsstring"
  randomSuffix :: "nat \<Rightarrow> jsstring"

text \<open>
  \<^verbatim>\<open>toLowerCase()\<close>: on an ASCII string the letters A to Z are mapped to a to z and
  nothing else changes.
\<close>

definition asciiLower :: "jschar \<Rightarrow> jschar" where
  "asciiLower c = (if 0x41 \<le> c \<and> c \<le> 0x5A then c + 0x20 else c)"

definition toLowerCase :: "builtins \<Rightarrow> jsstring \<Rightarrow> jsstring" where
  "toLowerCase B s =
     (if list_all (\<lambda>c. c < 0x80) s then map asciiLower s else lowerNonAscii B s)"

text \<open>Truthiness (ToBoolean), as used by \<^verbatim>\<open>!x\<close>, \<^verbatim>\<open>x && y\<close>, \<^verbatim>\<open>x || y\<close> and \<^verbatim>\<open>x ? y : z\<close>.\<close>

fun jsTruthy :: "jsvalue \<Rightarrow> bool" where
  "jsTruthy JUndefined = False"
| "jsTruthy JNull = False"
| "jsTruthy (JBool b) = b"
| "jsTruthy (JNum (Finite q)) = (q \<noteq> 0)"
| "jsTruthy (JNum NaN) = False"
| "jsTruthy (JNum _) = True"
| "jsTruthy (JStr s) = (s \<noteq> [])"
| "jsTruthy (JArr _) = True"
| "jsTruthy (JObj _) = True"

text \<open>
  Reading a property.  The program reads only names that no prototype defines
  (\<^verbatim>\<open>events\<close>, \<^verbatim>\<open>title\<close>, \<^verbatim>\<open>date\<close>, ...), so a value other than an object has none of
  them.  It never reads a property of \<^verbatim>\<open>null\<close> or \<^verbatim>\<open>undefined\<close>.
\<close>

definition getProp :: "jsvalue \<Rightarrow> jsstring \<Rightarrow> jsvalue" where
  "getProp v k =
     (case v of
        JObj fs \<Rightarrow> (case map_of fs k of Some x \<Rightarrow> x | None \<Rightarrow> JUndefined)
      | _ \<Rightarrow> JUndefined)"

text \<open>\<^verbatim>\<open>typeof v === 'object'\<close>, which holds of objects, of arrays and of \<^verbatim>\<open>null\<close>.\<close>

definition typeofObject :: "jsvalue \<Rightarrow> bool" where
  "typeofObject v = (case v of JObj _ \<Rightarrow> True | JArr _ \<Rightarrow> True | JNull \<Rightarrow> True | _ \<Rightarrow> False)"

text \<open>
  \<^verbatim>\<open>String(v)\<close>.  An array is joined with commas, \<^verbatim>\<open>null\<close> and \<^verbatim>\<open>undefined\<close>
  elements giving the empty string.  A parsed object has no callable property of its own:
  when it has an own property \<^verbatim>\<open>toString\<close>, the inherited method is hidden, the
  inherited \<^verbatim>\<open>valueOf\<close> returns the object itself, and the conversion throws a
  TypeError; otherwise the inherited \<^verbatim>\<open>toString\<close> answers \<^verbatim>\<open>[object Object]\<close>.
\<close>

definition toPrimitiveError :: thrown where
  "toPrimitiveError = Error (js ''Cannot convert object to primitive value'')"

fun jsString :: "builtins \<Rightarrow> jsvalue \<Rightarrow> thrown + jsstring"
  and jsJoin :: "builtins \<Rightarrow> jsvalue list \<Rightarrow> thrown + jsstring"
  and jsJoinElement :: "builtins \<Rightarrow> jsvalue \<Rightarrow> thrown + jsstring" where
  "jsString B JUndefined = Inr (js ''undefined'')"
| "jsString B JNull = Inr (js ''null'')"
| "jsString B (JBool b) = Inr (if b then js ''true'' else js ''false'')"
| "jsString B (JNum n) = Inr (numberToString B n)"
| "jsString B (JStr s) = Inr s"
| "jsString B (JArr xs) = jsJoin B xs"
| "jsString B (JObj fs) =
     (if map_of fs (js ''toString'') \<noteq> None then Inl toPrimitiveError
      else Inr (js ''[object Object]''))"
| "jsJoin B [] = Inr []"
| "jsJoin B [x] = jsJoinElement B x"
| "jsJoin B (x # y # ys) =
     (case jsJoinElement B x of
        Inl e \<Rightarrow> Inl e
      | Inr s \<Rightarrow> (case jsJoin B (y # ys) of
                   Inl e \<Rightarrow> Inl e
                 | Inr r \<Rightarrow> Inr (s @ 0x2C # r)))"
| "jsJoinElement B JUndefined = Inr []"
| "jsJoinElement B JNull = Inr []"
| "jsJoinElement B (JBool b) = jsString B (JBool b)"
| "jsJoinElement B (JNum n) = jsString B (JNum n)"
| "jsJoinElement B (JStr s) = jsString B (JStr s)"
| "jsJoinElement B (JArr xs) = jsString B (JArr xs)"
| "jsJoinElement B (JObj fs) = jsString B (JObj fs)"

text \<open>
  \<^verbatim>\<open>Number(v)\<close>: an object or array is first converted as \<^verbatim>\<open>String\<close> converts it
  (its \<^verbatim>\<open>valueOf\<close> never yields a primitive), and throws when that does.
\<close>

fun jsNumber :: "builtins \<Rightarrow> jsvalue \<Rightarrow> thrown + jsnumber" where
  "jsNumber B JUndefined = Inr NaN"
| "jsNumber B JNull = Inr (Finite 0)"
| "jsNumber B (JBool b) = Inr (Finite (if b then 1 else 0))"
| "jsNumber B (JNum n) = Inr n"
| "jsNumber B (JStr s) = Inr (stringToNumber B s)"
| "jsNumber B v =
     (case jsString B v of Inl e \<Rightarrow> Inl e | Inr s \<Rightarrow> Inr (stringToNumber B s))"

section \<open>pdf-parser.ts: PDFProcessor\<close>

type_synonym buffer = "8 word list"

text \<open>The interface \<^verbatim>\<open>PDFParseResult\<close>; \<open>pdfText\<close> is its property \<^verbatim>\<open>text\<close>.\<close>

record PDFParseResult =
  pdfText :: jsstring
  numpages :: nat
  info :: jsvalue
  metadata :: jsvalue

text \<open>
  The library \<^verbatim>\<open>pdf-parse\<close> is a parameter: for a buffer it returns the decoded
  document or throws.  The same buffer gives the same outcome each time it is decoded.
\<close>

type_synonym pdfParse = "buffer \<Rightarrow> thrown + PDFParseResult"

text \<open>What \<^verbatim>\<open>error instanceof Error ? error.message : 'Unknown error'\<close> evaluates to.\<close>

definition errorMessage :: "thrown \<Rightarrow> jsstring" where
  "errorMessage e = (case e of Error m \<Rightarrow> m | NonError \<Rightarrow> js ''Unknown error'')"

text \<open>\<^verbatim>\<open>extractText\<close>: the result of the library, or its error caught and wrapped.\<close>

definition extractText :: "pdfParse \<Rightarrow> buffer \<Rightarrow> thrown + PDFParseResult" where
  "extractText parse buffer =
     (case parse buffer of
        Inr data \<Rightarrow>
          Inr \<lparr>pdfText = pdfText data, numpages = numpages data,
               info = info data, metadata = metadata data\<rparr>
      | Inl error \<Rightarrow> Inl (Error (js ''Failed to parse PDF: '' @ errorMessage error)))"

text \<open>
  \<^verbatim>\<open>buffer.slice(0, 4).toString() === '%PDF'\<close>: the first four bytes decode to these
  four ASCII characters exactly when they are their codes.
\<close>

definition validatePDFBuffer :: "buffer \<Rightarrow> bool" where
  "validatePDFBuffer buffer \<longleftrightarrow> take 4 buffer = [0x25, 0x50, 0x44, 0x46]"

text \<open>
  The constants \<^verbatim>\<open>textLength\<close> and \<^verbatim>\<open>avgTextPerPage\<close> of \<^verbatim>\<open>isScannedPDF\<close>, and the
  function itself, whose \<^verbatim>\<open>catch\<close> answers true.  The quotient is exact here; the double
  the program computes is below 100 in the same cases as long as the document has fewer
  than \<open>2 ^ 47\<close> pages.
\<close>

definition textLength :: "PDFParseResult \<Rightarrow> nat" where
  "textLength result = length (trim (pdfText result))"

definition avgTextPerPage :: "PDFParseResult \<Rightarrow> jsnumber" where
  "avgTextPerPage result = jsDivide (of_nat (textLength result)) (of_nat (numpages result))"

definition isScannedPDF :: "pdfParse \<Rightarrow> buffer \<Rightarrow> bool" where
  "isScannedPDF parse buffer =
     (case extractText parse buffer of
        Inr result \<Rightarrow> jsLess (avgTextPerPage result) (Finite 100)
      | Inl _ \<Rightarrow> True)"

text \<open>\<^verbatim>\<open>processForAI\<close> and the three errors it throws itself.\<close>

definition invalidFormatError :: thrown where
  "invalidFormatError = Error (js ''Invalid PDF file format'')"

definition scannedError :: thrown where
  "scannedError =
     Error (js ''Scanned PDFs are not currently supported. Please provide a text-based PDF.'')"

definition littleTextError :: thrown where
  "littleTextError = Error (js ''PDF appears to contain very little text content'')"

definition processForAI :: "pdfParse \<Rightarrow> buffer \<Rightarrow> thrown + jsstring" where
  "processForAI parse buffer =
     (if \<not> validatePDFBuffer buffer then Inl invalidFormatError
      else if isScannedPDF parse buffer then Inl scannedError
      else
        (case extractText parse buffer of
           Inl e \<Rightarrow> Inl e
         | Inr result \<Rightarrow>
             (let cleanedText = cleanText (pdfText result)
              in if length cleanedText < 50 then Inl littleTextError
                 else Inr cleanedText)))"

section \<open>The extraction pipeline: SyllabusProcessor\<close>

subsection \<open>The prompt\<close>

text \<open>
  The template literal of \<^verbatim>\<open>createExtractionPrompt\<close>: the text before the
  placeholder \<^verbatim>\<open>${syllabusText}\<close> and the text after it.
\<close>

definition promptHeader :: jsstring where
  \<open>promptHeader = js
      (''\<newline>'' @
       ''You are an expert at analyzing academic syllabi and extracting important dates and events. \<newline>'' @
       ''\<newline>'' @
       ''Analyze the following syllabus text and extract ALL important dates, assignments, exams, and deadlines. Return the results as a JSON object with the following structure:\<newline>'' @
       ''\<newline>'' @
       ''{\<newline>'' @
       ''  "courseName": "Course name if mentioned",\<newline>'' @
       ''  "instructor": "Instructor name if mentioned", \<newline>'' @
       ''  "semester": "Semester if mentioned (e.g. 'Fall 2024')",\<newline>'' @
       ''  "year": 2024,\<newline>'' @
       ''  "events": [\<newline>'' @
       ''    {\<newline>'' @
       ''      "title": "Assignment or event title",\<newline>'' @
       ''      "description": "Detailed description of the assignment/event",\<newline>'' @
       ''      "date": "YYYY-MM-DD format",\<newline>'' @
       ''      "time": "HH:MM format if specific time mentioned, otherwise null",\<newline>'' @
       ''      "type": "assignment|exam|reading|lecture|project|quiz|other",\<newline>'' @
       ''      "priority": "high|medium|low",\<newline>'' @
       ''      "location": "location if mentioned, otherwise null"\<newline>'' @
       ''    }\<newline>'' @
       ''  ]\<newline>'' @
       ''}\<newline>'' @
       ''\<newline>'' @
       ''Focus on extracting:\<newline>'' @
       ''- Assignment due dates\<newline>'' @
       ''- Exam dates and times\<newline>'' @
       ''- Project deadlines\<newline>'' @
       ''- Reading assignments with due dates\<newline>'' @
       ''- Quiz dates\<newline>'' @
       ''- Important class sessions or lectures\<newline>'' @
       ''- Office hours (if recurring)\<newline>'' @
       ''- Review sessions\<newline>'' @
       ''\<newline>'' @
       ''Guidelines:\<newline>'' @
       ''1. If no year is specified, assume the current or next academic year\<newline>'' @
       ''2. For dates like "Week 3 Monday" or "Sept 15", try to determine the actual date\<newline>'' @
       ''3. Mark exams and major projects as "high" priority\<newline>'' @
       ''4. Mark regular assignments as "medium" priority  \<newline>'' @
       ''5. Mark readings and optional items as "low" priority\<newline>'' @
       ''6. If time is mentioned (e.g. "due at 11:59 PM"), include it\<newline>'' @
       ''7. Be conservative - only extract clear, definite dates\<newline>'' @
       ''8. If a date is ambiguous, include it but note the ambiguity in the description\<newline>'' @
       ''\<newline>'' @
       ''Syllabus text:\<newline>'')\<close>

definition promptFooter :: jsstring where
  \<open>promptFooter = js
      (''\<newline>'' @
       ''\<newline>'' @
       ''Return only valid JSON, no additional text or explanations.'')\<close>

definition createExtractionPrompt :: "jsstring \<Rightarrow> jsstring" where
  "createExtractionPrompt syllabusText = promptHeader @ syllabusText @ promptFooter"

subsection \<open>The validator\<close>

text \<open>
  The regular expression \<^verbatim>\<open>/^\d{4}-\d{2}-\d{2}$/\<close>, then \<^verbatim>\<open>isValidDateFormat\<close>
  and \<^verbatim>\<open>validateDate\<close>.
\<close>

definition isDigit :: "jschar \<Rightarrow> bool" where
  "isDigit c \<longleftrightarrow> 0x30 \<le> c \<and> c \<le> 0x39"

fun dateRegexTest :: "jsstring \<Rightarrow> bool" where
  "dateRegexTest [y1, y2, y3, y4, h1, m1, m2, h2, d1, d2] =
     (isDigit y1 \<and> isDigit y2 \<and> isDigit y3 \<and> isDigit y4 \<and> h1 = 0x2D \<and>
      isDigit m1 \<and> isDigit m2 \<and> h2 = 0x2D \<and> isDigit d1 \<and> isDigit d2)"
| "dateRegexTest _ = False"

text \<open>
  \<^verbatim>\<open>new Date(dateStr)\<close> for a string that passed the regular expression, as Node.js,
  which runs the validator, evaluates it: \<^verbatim>\<open>getTime()\<close> is a number, not NaN, exactly
  when the month is from 01 to 12 and the day from 01 to 31, whatever the length of the
  month.  A day past the end of the month counts into the next month: 2024-02-30 is the
  first of March.  The test \<^verbatim>\<open>date instanceof Date\<close> always holds.
\<close>

definition digitValue :: "jschar \<Rightarrow> nat" where
  "digitValue c = unat c - 48"

definition twoDigits :: "jschar \<Rightarrow> jschar \<Rightarrow> nat" where
  "twoDigits a b = 10 * digitValue a + digitValue b"

fun dateTimeNotNaN :: "jsstring \<Rightarrow> bool" where
  "dateTimeNotNaN [y1, y2, y3, y4, h1, m1, m2, h2, d1, d2] =
     (let month = twoDigits m1 m2;
          day = twoDigits d1 d2
      in 1 \<le> month \<and> month \<le> 12 \<and> 1 \<le> day \<and> day \<le> 31)"
| "dateTimeNotNaN _ = False"

definition isValidDateFormat :: "jsstring \<Rightarrow> bool" where
  "isValidDateFormat dateStr =
     (if \<not> dateRegexTest dateStr then False else dateTimeNotNaN dateStr)"

definition validateDate :: "jsstring \<Rightarrow> thrown + jsstring" where
  "validateDate dateStr =
     (if \<not> isValidDateFormat dateStr
      then Inl (Error (js ''Invalid date format: '' @ dateStr))
      else Inr dateStr)"

text \<open>
  \<^verbatim>\<open>isValidEvent\<close>.  Its \<^verbatim>\<open>&&\<close> chain stops at the first falsy operand, so the
  title is trimmed and the date is tested only when they are strings.
\<close>

definition isValidEvent :: "jsvalue \<Rightarrow> bool" where
  "isValidEvent event \<longleftrightarrow>
     jsTruthy event \<and>
     (case getProp event (js ''title'') of
        JStr t \<Rightarrow>
          0 < length (trim t) \<and>
          (case getProp event (js ''date'') of
             JStr d \<Rightarrow> isValidDateFormat d
           | _ \<Rightarrow> False)
      | _ \<Rightarrow> False)"

text \<open>
  \<^verbatim>\<open>validateEventType\<close> and \<^verbatim>\<open>validatePriority\<close>, each with the array it searches.
  They are declared on strings and called with whatever the candidate holds, which
  \<^verbatim>\<open>String\<close> converts first.
\<close>

definition validTypes :: "jsstring list" where
  "validTypes =
     [js ''assignment'', js ''exam'', js ''reading'', js ''lecture'', js ''project'',
      js ''quiz'', js ''other'']"

definition validateEventType :: "builtins \<Rightarrow> jsvalue \<Rightarrow> thrown + jsstring" where
  "validateEventType B type =
     (case jsString B type of
        Inl e \<Rightarrow> Inl e
      | Inr s \<Rightarrow>
          (let lowerType = toLowerCase B s
           in Inr (if lowerType \<in> set validTypes then lowerType else js ''other'')))"

definition validPriorities :: "jsstring list" where
  "validPriorities = [js ''high'', js ''medium'', js ''low'']"

definition validatePriority :: "builtins \<Rightarrow> jsvalue \<Rightarrow> thrown + jsstring" where
  "validatePriority B priority =
     (case jsString B priority of
        Inl e \<Rightarrow> Inl e
      | Inr s \<Rightarrow>
          (let lowerPriority = toLowerCase B s
           in Inr (if lowerPriority \<in> set validPriorities then lowerPriority
                   else js ''medium'')))"

text \<open>
  The interface \<^verbatim>\<open>SyllabusEvent\<close>, with the properties the validator sets; \<open>eventId\<close>
  and \<open>eventType\<close> are its properties \<^verbatim>\<open>id\<close> and \<^verbatim>\<open>type\<close>.  An optional property
  that is \<^verbatim>\<open>undefined\<close> is \<open>None\<close>.
\<close>

record SyllabusEvent =
  eventId :: jsstring
  title :: jsstring
  description :: jsstring
  date :: jsstring
  time :: "jsstring option"
  eventType :: jsstring
  priority :: jsstring
  location :: "jsstring option"

text \<open>\<^verbatim>\<open>generateEventId\<close>, for the k-th event of a validation pass.\<close>

definition generateEventId :: "builtins \<Rightarrow> nat \<Rightarrow> jsstring" where
  "generateEventId B k = js ''event-'' @ dateNow B k @ js ''-'' @ randomSuffix B k"

text \<open>
  \<^verbatim>\<open>String(x).trim()\<close>, and the pattern \<^verbatim>\<open>x ? String(x).trim() : undefined\<close> that the
  validator applies to \<^verbatim>\<open>time\<close>, \<^verbatim>\<open>location\<close>, \<^verbatim>\<open>courseName\<close>, \<^verbatim>\<open>instructor\<close>
  and \<^verbatim>\<open>semester\<close>.
\<close>

definition stringTrim :: "builtins \<Rightarrow> jsvalue \<Rightarrow> thrown + jsstring" where
  "stringTrim B x = (case jsString B x of Inl e \<Rightarrow> Inl e | Inr s \<Rightarrow> Inr (trim s))"

definition optionalTrimmed :: "builtins \<Rightarrow> jsvalue \<Rightarrow> thrown + jsstring option" where
  "optionalTrimmed B x =
     (if jsTruthy x then (case stringTrim B x of Inl e \<Rightarrow> Inl e | Inr s \<Rightarrow> Inr (Some s))
      else Inr None)"

text \<open>
  The object literal pushed for a valid candidate; its properties are evaluated in the
  order written, so the first conversion that throws decides the exception.  \<open>k\<close> is the
  number of events built before this one.  \<^verbatim>\<open>validateDate\<close> uses its argument as a
  string (in the regular expression, in \<^verbatim>\<open>new Date\<close>, in the message), which for a
  value of another type is the string \<^verbatim>\<open>String\<close> gives.
\<close>

definition cleanedEvent :: "builtins \<Rightarrow> nat \<Rightarrow> jsvalue \<Rightarrow> thrown + SyllabusEvent" where
  "cleanedEvent B k event =
     (case stringTrim B (getProp event (js ''title'')) of Inl e \<Rightarrow> Inl e | Inr title' \<Rightarrow>
      case stringTrim B (if jsTruthy (getProp event (js ''description''))
                         then getProp event (js ''description'') else JStr [])
        of Inl e \<Rightarrow> Inl e | Inr description' \<Rightarrow>
      case (case jsString B (getProp event (js ''date'')) of
              Inl e \<Rightarrow> Inl e
            | Inr dateStr \<Rightarrow> validateDate dateStr) of Inl e \<Rightarrow> Inl e | Inr date' \<Rightarrow>
      case optionalTrimmed B (getProp event (js ''time'')) of Inl e \<Rightarrow> Inl e | Inr time' \<Rightarrow>
      case validateEventType B (getProp event (js ''type'')) of Inl e \<Rightarrow> Inl e | Inr type' \<Rightarrow>
      case validatePriority B (getProp event (js ''priority'')) of Inl e \<Rightarrow> Inl e | Inr priority' \<Rightarrow>
      case optionalTrimmed B (getProp event (js ''location'')) of Inl e \<Rightarrow> Inl e | Inr location' \<Rightarrow>
        Inr \<lparr>eventId = generateEventId B k, title = title', description = description',
             date = date', time = time', eventType = type', priority = priority',
             location = location'\<rparr>)"

text \<open>The loop \<^verbatim>\<open>for (const event of result.events)\<close> over the array \<open>events\<close> it fills.\<close>

fun pushValidEvents ::
  "builtins \<Rightarrow> jsvalue list \<Rightarrow> SyllabusEvent list \<Rightarrow> thrown + SyllabusEvent list" where
  "pushValidEvents B [] events = Inr events"
| "pushValidEvents B (event # rest) events =
     (if isValidEvent event then
        (case cleanedEvent B (length events) event of
           Inl e \<Rightarrow> Inl e
         | Inr ev \<Rightarrow> pushValidEvents B rest (events @ [ev]))
      else pushValidEvents B rest events)"

text \<open>
  The interface \<^verbatim>\<open>ProcessedSyllabus\<close> and \<^verbatim>\<open>validateAndCleanResult\<close>, which throws
  for a value that is falsy or not of type object, runs the loop when \<^verbatim>\<open>events\<close> is an
  array, and converts the four other properties in the order written.
\<close>

record ProcessedSyllabus =
  events :: "SyllabusEvent list"
  courseName :: "jsstring option"
  instructor :: "jsstring option"
  semester :: "jsstring option"
  year :: "jsnumber option"

definition invalidResultError :: thrown where
  "invalidResultError = Error (js ''Invalid result format'')"

definition optionalNumber :: "builtins \<Rightarrow> jsvalue \<Rightarrow> thrown + jsnumber option" where
  "optionalNumber B x =
     (if jsTruthy x then (case jsNumber B x of Inl e \<Rightarrow> Inl e | Inr n \<Rightarrow> Inr (Some n))
      else Inr None)"

definition validateAndCleanResult :: "builtins \<Rightarrow> jsvalue \<Rightarrow> thrown + ProcessedSyllabus" where
  "validateAndCleanResult B result =
     (if \<not> jsTruthy result \<or> \<not> typeofObject result then Inl invalidResultError
      else
        case (case getProp result (js ''events'') of
                JArr candidates \<Rightarrow> pushValidEvents B candidates []
              | _ \<Rightarrow> Inr []) of Inl e \<Rightarrow> Inl e | Inr events' \<Rightarrow>
        case optionalTrimmed B (getProp result (js ''courseName'')) of Inl e \<Rightarrow> Inl e | Inr courseName' \<Rightarrow>
        case optionalTrimmed B (getProp result (js ''instructor'')) of Inl e \<Rightarrow> Inl e | Inr instructor' \<Rightarrow>
        case optionalTrimmed B (getProp result (js ''semester'')) of Inl e \<Rightarrow> Inl e | Inr semester' \<Rightarrow>
        case optionalNumber B (getProp result (js ''year'')) of Inl e \<Rightarrow> Inl e | Inr year' \<Rightarrow>
          Inr \<lparr>events = events', courseName = courseName', instructor = instructor',
               semester = semester', year = year'\<rparr>)"

subsection \<open>The model calls\<close>

text \<open>
  A request to \<^verbatim>\<open>openai.chat.completions.create\<close>.  The service is a parameter: given
  the requests made so far and the new one, it throws or answers, and
  \<^verbatim>\<open>response.choices[0]?.message?.content\<close> is a string or nothing (\<open>None\<close> for
  \<^verbatim>\<open>null\<close> and \<^verbatim>\<open>undefined\<close>).
\<close>

record request =
  model :: jsstring
  systemContent :: jsstring
  userContent :: jsstring
  temperature :: rat
  max_tokens :: nat

type_synonym chatService = "request list \<Rightarrow> request \<Rightarrow> thrown + jsstring option"

definition systemInstruction :: jsstring where
  "systemInstruction =
     js ''You are an expert academic assistant specializing in syllabus analysis. Return only valid JSON responses.''"

definition primaryRequest :: "jsstring \<Rightarrow> request" where
  "primaryRequest prompt =
     \<lparr>model = js ''gpt-4'', systemContent = systemInstruction, userContent = prompt,
      temperature = 1 / 10, max_tokens = 3000\<rparr>"

definition fallbackRequest :: "jsstring \<Rightarrow> request" where
  "fallbackRequest prompt =
     \<lparr>model = js ''gpt-3.5-turbo'', systemContent = systemInstruction, userContent = prompt,
      temperature = 1 / 10, max_tokens = 2000\<rparr>"

definition noResponseError :: thrown where
  "noResponseError = Error (js ''No response from OpenAI'')"

definition invalidJsonError :: thrown where
  "invalidJsonError = Error (js ''Invalid JSON response from AI model'')"

text \<open>
  The body of the \<^verbatim>\<open>try\<close> block of \<^verbatim>\<open>extractEvents\<close>: the call, the test
  \<^verbatim>\<open>!content\<close>, the parse and the validation.  Each function of this section returns
  its outcome together with the list of the requests made so far.
\<close>

definition primaryAttempt ::
  "builtins \<Rightarrow> chatService \<Rightarrow> request list \<Rightarrow> jsstring \<Rightarrow>
     (thrown + ProcessedSyllabus) \<times> request list" where
  "primaryAttempt B service sent syllabusText =
     (let prompt = createExtractionPrompt syllabusText;
          req = primaryRequest prompt
      in (case service sent req of
            Inl e \<Rightarrow> Inl e
          | Inr None \<Rightarrow> Inl noResponseError
          | Inr (Some content) \<Rightarrow>
              if content = [] then Inl noResponseError
              else (case jsonParse B content of
                      Inl parseError \<Rightarrow> Inl invalidJsonError
                    | Inr parsedResult \<Rightarrow> validateAndCleanResult B parsedResult),
          sent @ [req]))"

text \<open>\<^verbatim>\<open>extractEvents\<close>: whatever the block throws is caught and thrown again, wrapped.\<close>

definition extractEvents ::
  "builtins \<Rightarrow> chatService \<Rightarrow> request list \<Rightarrow> jsstring \<Rightarrow>
     (thrown + ProcessedSyllabus) \<times> request list" where
  "extractEvents B service sent syllabusText =
     (case primaryAttempt B service sent syllabusText of
        (Inr r, sent') \<Rightarrow> (Inr r, sent')
      | (Inl error, sent') \<Rightarrow>
          (Inl (Error (js ''Failed to process syllabus: '' @ errorMessage error)), sent'))"

text \<open>
  The inner \<^verbatim>\<open>try\<close> block of \<^verbatim>\<open>extractEventsWithFallback\<close>; here a SyntaxError of
  \<^verbatim>\<open>JSON.parse\<close> is thrown as it is.
\<close>

definition fallbackAttempt ::
  "builtins \<Rightarrow> chatService \<Rightarrow> request list \<Rightarrow> jsstring \<Rightarrow>
     (thrown + ProcessedSyllabus) \<times> request list" where
  "fallbackAttempt B service sent syllabusText =
     (let prompt = createExtractionPrompt syllabusText;
          req = fallbackRequest prompt
      in (case service sent req of
            Inl e \<Rightarrow> Inl e
          | Inr None \<Rightarrow> Inl noResponseError
          | Inr (Some content) \<Rightarrow>
              if content = [] then Inl noResponseError
              else (case jsonParse B content of
                      Inl parseError \<Rightarrow> Inl parseError
                    | Inr parsedResult \<Rightarrow> validateAndCleanResult B parsedResult),
          sent @ [req]))"

definition processingFailedError :: thrown where
  "processingFailedError =
     Error (js ''AI processing failed. Please try again or check your syllabus format.'')"

definition extractEventsWithFallback ::
  "builtins \<Rightarrow> chatService \<Rightarrow> request list \<Rightarrow> jsstring \<Rightarrow>
     (thrown + ProcessedSyllabus) \<times> request list" where
  "extractEventsWithFallback B service sent syllabusText =
     (case extractEvents B service sent syllabusText of
        (Inr r, sent') \<Rightarrow> (Inr r, sent')
      | (Inl error, sent') \<Rightarrow>
          (case fallbackAttempt B service sent' syllabusText of
             (Inr r, sent'') \<Rightarrow> (Inr r, sent'')
           | (Inl fallbackError, sent'') \<Rightarrow> (Inl processingFailedError, sent'')))"

section \<open>Predicates used in the proofs\<close>

text \<open>
  Shapes of a normalized text.  \<open>spaced\<close>: every white-space character is a space and
  no two of them are adjacent.  \<open>tight\<close>: no white space stands directly before a
  punctuation mark.  \<open>plain\<close>: the character is not one of the four bullet glyphs.
\<close>

fun spaced :: "jsstring \<Rightarrow> bool" where
  "spaced (c # d # cs) = ((isWhiteSpace c \<longrightarrow> c = 0x20 \<and> \<not> isWhiteSpace d) \<and> spaced (d # cs))"
| "spaced [c] = (isWhiteSpace c \<longrightarrow> c = 0x20)"
| "spaced [] = True"

fun tight :: "jsstring \<Rightarrow> bool" where
  "tight (c # d # cs) = (\<not> (isWhiteSpace c \<and> isPunct d) \<and> tight (d # cs))"
| "tight cs = True"

definition plain :: "jschar \<Rightarrow> bool" where
  "plain c \<longleftrightarrow> c \<noteq> 0x2022 \<and> c \<noteq> 0xB7 \<and> c \<noteq> 0x2023 \<and> c \<noteq> 0x2043"

section \<open>Readings of the claims and inputs for the worked examples\<close>










text \<open>
  A value whose conversion to a string or a number cannot throw: anything but an array
  or an object.
\<close>

definition isPrimitive :: "jsvalue \<Rightarrow> bool" where
  "isPrimitive v = (case v of JArr _ \<Rightarrow> False | JObj _ \<Rightarrow> False | _ \<Rightarrow> True)"

text \<open>
  An error wraps a cause, in the way \<^verbatim>\<open>extractEvents\<close> and \<^verbatim>\<open>extractText\<close> wrap
  one, when its message contains the message of the cause.
\<close>

definition wrapsCause :: "thrown \<Rightarrow> thrown \<Rightarrow> bool" where
  "wrapsCause e cause \<longleftrightarrow> sublist (errorMessage cause) (errorMessage e)"

text \<open>
  An environment for the examples.  Its entries are the built-ins on the inputs the
  examples contain: ASCII text, the reply \<^verbatim>\<open>{}\<close> and replies that are not JSON.  The
  examples give no number to a conversion.
\<close>

definition sampleJsonParse :: "jsstring \<Rightarrow> thrown + jsvalue" where
  "sampleJsonParse s =
     (if s = js ''{}'' then Inr (JObj []) else Inl (Error (js ''Unexpected token'')))"

definition sampleBuiltins :: builtins where
  "sampleBuiltins =
     \<lparr>lowerNonAscii = (\<lambda>s. s),
      numberToString = (\<lambda>n. js ''0''), stringToNumber = (\<lambda>s. NaN),
      jsonParse = sampleJsonParse, dateNow = (\<lambda>k. js ''1700000000000''),
      randomSuffix = (\<lambda>k. js ''k3x9q2m1z'')\<rparr>"







text \<open>
  A value with a property \<^verbatim>\<open>toString\<close> of its own, as \<^verbatim>\<open>{"toString": 1}\<close> parses, and
  a candidate with that value as its type and its priority.
\<close>

definition ownToStringValue :: jsvalue where
  "ownToStringValue = JObj [(js ''toString'', JNum (Finite 1))]"

definition ownToStringCandidate :: jsvalue where
  "ownToStringCandidate =
     JObj [(js ''title'', JStr (js ''A'')), (js ''date'', JStr (js ''2024-09-15'')),
           (js ''type'', ownToStringValue), (js ''priority'', ownToStringValue)]"

text \<open>A valid candidate whose time and location are white space only.\<close>

definition blankTimeCandidate :: jsvalue where
  "blankTimeCandidate =
     JObj [(js ''title'', JStr (js ''A'')), (js ''date'', JStr (js ''2024-09-15'')),
           (js ''time'', JStr (js ''  '')), (js ''location'', JStr (js '' ''))]"

text \<open>A valid candidate with a time and a location, and with type and priority in capitals.\<close>

definition examCandidate :: jsvalue where
  "examCandidate =
     JObj [(js ''title'', JStr (js ''Midterm'')), (js ''date'', JStr (js ''2024-10-21'')),
           (js ''time'', JStr (js '' 09:30 '')), (js ''type'', JStr (js ''EXAM'')),
           (js ''priority'', JStr (js ''High'')), (js ''location'', JStr (js ''Room 12''))]"

text \<open>
  Two services: one fails both calls, each with its own message; the other answers the
  primary model's request with text that is not JSON and the secondary's with \<^verbatim>\<open>{}\<close>.
\<close>

definition failingService :: chatService where
  "failingService sent req =
     (if model req = js ''gpt-4'' then Inl (Error (js ''500 upstream''))
      else Inl (Error (js ''429 quota'')))"

definition malformedThenEmptyService :: chatService where
  "malformedThenEmptyService sent req =
     (if model req = js ''gpt-4'' then Inr (Some (js ''I cannot read this syllabus''))
      else Inr (Some (js ''{}'')))"

text \<open>A buffer with the signature, a document of one page with little text, and a decoder that throws.\<close>

definition sampleBuffer :: buffer where
  "sampleBuffer = [0x25, 0x50, 0x44, 0x46, 0x2D, 0x31, 0x2E, 0x34]"





definition brokenPdf :: pdfParse where
  "brokenPdf = (\<lambda>b. Inl (Error (js ''bad XRef entry'')))"



text \<open>The event built from the candidate with a blank time and location.\<close>

definition blankTimeEvent :: SyllabusEvent where
  "blankTimeEvent =
     \<lparr>eventId = generateEventId sampleBuiltins 0, title = js ''A'', description = [],
      date = js ''2024-09-15'', time = Some [], eventType = js ''other'',
      priority = js ''medium'', location = Some []\<rparr>"

text \<open>The event built from the exam candidate.\<close>

definition examEvent :: SyllabusEvent where
  "examEvent =
     \<lparr>eventId = generateEventId sampleBuiltins 0, title = js ''Midterm'', description = [],
      date = js ''2024-10-21'', time = Some (js ''09:30''), eventType = js ''exam'',
      priority = js ''high'', location = Some (js ''Room 12'')\<rparr>"

text \<open>The result of validating the empty object.\<close>

definition emptyResult :: ProcessedSyllabus where
  "emptyResult = \<lparr>events = [], courseName = None, instructor = None, semester = None, year = None\<rparr>"

section \<open>The text normalizer is idempotent\<close>

lemma punct_not_ws: "isPunct c \<Longrightarrow> \<not> isWhiteSpace c"
  by (auto simp: isPunct_def isWhiteSpace_def)

lemma space_ws: "isWhiteSpace 0x20" by (simp add: isWhiteSpace_def)

lemma spaced_Cons: "spaced (c # cs) \<longleftrightarrow>
   (isWhiteSpace c \<longrightarrow> c = 0x20 \<and> (cs = [] \<or> \<not> isWhiteSpace (hd cs))) \<and> spaced cs"
  by (cases cs) auto

lemma tight_Cons: "tight (c # cs) \<longleftrightarrow>
   (isWhiteSpace c \<longrightarrow> cs = [] \<or> \<not> isPunct (hd cs)) \<and> tight cs"
  by (cases cs) auto

lemma spaced_append: "spaced (xs @ ys) \<Longrightarrow> spaced xs \<and> spaced ys"
  by (induction xs) (auto simp: spaced_Cons hd_append split: if_splits)

lemma tight_append: "tight (xs @ ys) \<Longrightarrow> tight xs \<and> tight ys"
  by (induction xs) (auto simp: tight_Cons hd_append split: if_splits)

lemma spaced_ws: "spaced xs \<Longrightarrow> c \<in> set xs \<Longrightarrow> isWhiteSpace c \<Longrightarrow> c = 0x20"
  by (induction xs) (auto simp: spaced_Cons)

lemma add_nomatch: "\<not> isPunct c \<or> cs = [] \<or> isWhiteSpace (hd cs) \<Longrightarrow> addSpaceAfterPunct (c # cs) = c # addSpaceAfterPunct cs"
  by (cases cs) auto

lemma add_nonpunct: "\<not> isPunct c \<Longrightarrow> addSpaceAfterPunct (c # cs) = c # addSpaceAfterPunct cs"
  by (rule add_nomatch) simp

lemma add_before_ws: "isWhiteSpace d \<Longrightarrow> addSpaceAfterPunct (c # d # cs) = c # addSpaceAfterPunct (d # cs)"
  by simp

lemma space_not_punct: "\<not> isPunct 0x20" by (simp add: isPunct_def)

lemma add_Nil_iff: "addSpaceAfterPunct cs = [] \<longleftrightarrow> cs = []"
  by (induction cs rule: addSpaceAfterPunct.induct) auto

lemma hd_add: "hd (addSpaceAfterPunct cs) = hd cs"
  by (induction cs rule: addSpaceAfterPunct.induct) auto

lemma last_add: "cs \<noteq> [] \<Longrightarrow> last (addSpaceAfterPunct cs) = last cs"
  by (induction cs rule: addSpaceAfterPunct.induct) (auto simp: add_Nil_iff)

lemma rm_nonws: "\<not> isWhiteSpace c \<Longrightarrow> removeSpaceBeforePunct (c # cs) = c # removeSpaceBeforePunct cs"
  by simp

lemma rm_ws_nomatch: "isWhiteSpace c \<Longrightarrow> cs = [] \<or> (\<not> isWhiteSpace (hd cs) \<and> \<not> isPunct (hd cs)) \<Longrightarrow>
   removeSpaceBeforePunct (c # cs) = c # removeSpaceBeforePunct cs"
  by (cases cs) auto

lemma rm_ws_match: "isWhiteSpace c \<Longrightarrow> isPunct p \<Longrightarrow>
   removeSpaceBeforePunct (c # p # cs) = p # removeSpaceBeforePunct cs"
  by (simp add: punct_not_ws)

lemma add_rm_add: "spaced w \<Longrightarrow> tight w \<Longrightarrow>
   addSpaceAfterPunct (removeSpaceBeforePunct (addSpaceAfterPunct w)) = addSpaceAfterPunct w"
proof (induction w rule: addSpaceAfterPunct.induct)
  case (3 c d cs)
  let ?A = addSpaceAfterPunct and ?R = removeSpaceBeforePunct
  from "3.prems" have sp: "spaced (d # cs)" "spaced cs" and ti: "tight (d # cs)" "tight cs"
    by (auto simp: spaced_Cons tight_Cons)
  show ?case
  proof (cases "isPunct c \<and> \<not> isWhiteSpace d")
    case True
    then have c: "isPunct c" "\<not> isWhiteSpace c" and d: "\<not> isWhiteSpace d"
      by (auto dest: punct_not_ws)
    have ih: "?A (?R (?A cs)) = ?A cs" using "3.IH"(1) True sp ti by simp
    have Aw: "?A (c # d # cs) = c # 0x20 # d # ?A cs" using True by simp
    show ?thesis
    proof (cases "isPunct d")
      case True
      have "?R (c # 0x20 # d # ?A cs) = c # d # ?R (?A cs)"
        using c True by (simp add: rm_nonws rm_ws_match space_ws del: removeSpaceBeforePunct.simps)
      moreover have "?A (c # d # ?R (?A cs)) = c # 0x20 # d # ?A (?R (?A cs))"
        using c d by simp
      ultimately show ?thesis using ih Aw by simp
    next
      case False
      have "?R (c # 0x20 # d # ?A cs) = c # 0x20 # d # ?R (?A cs)"
        using c d False by (simp add: rm_nonws rm_ws_nomatch space_ws del: removeSpaceBeforePunct.simps)
      moreover have "?A (c # 0x20 # d # ?R (?A cs)) = c # 0x20 # d # ?A (?R (?A cs))"
        using False by (simp add: add_nonpunct add_before_ws space_ws space_not_punct
            del: addSpaceAfterPunct.simps)
      ultimately show ?thesis using ih Aw by simp
    qed
  next
    case False
    let ?X = "?A (d # cs)"
    have ih: "?A (?R ?X) = ?X" using "3.IH"(2) False sp ti by simp
    have Aw: "?A (c # d # cs) = c # ?X" using False by auto
    have X: "?X \<noteq> []" "hd ?X = d" by (simp_all add: add_Nil_iff hd_add del: addSpaceAfterPunct.simps)
    show ?thesis
    proof (cases "isWhiteSpace c")
      case True
      with "3.prems" have d: "\<not> isWhiteSpace d" "\<not> isPunct d" by auto
      have "?R (c # ?X) = c # ?R ?X"
        using True d X by (intro rm_ws_nomatch) auto
      moreover have "?A (c # ?R ?X) = c # ?A (?R ?X)"
        using True by (intro add_nomatch) (auto dest: punct_not_ws)
      ultimately show ?thesis using ih Aw by simp
    next
      case cnws: False
      have R: "?R (c # ?X) = c # ?R ?X" using cnws by (rule rm_nonws)
      have "?A (c # ?R ?X) = c # ?A (?R ?X)"
      proof (cases "isPunct c")
        case False
        then show ?thesis by (intro add_nomatch) simp
      next
        case True
        with \<open>\<not> (isPunct c \<and> \<not> isWhiteSpace d)\<close> have d: "isWhiteSpace d" by simp
        then have Xd: "?X = d # ?A cs"
          by (intro add_nomatch) (auto dest: punct_not_ws)
        have "cs = [] \<or> (\<not> isWhiteSpace (hd cs) \<and> \<not> isPunct (hd cs))"
          using sp(1) ti(1) d by (auto simp: spaced_Cons tight_Cons)
        then have "?R (d # ?A cs) = d # ?R (?A cs)"
          using d by (intro rm_ws_nomatch) (auto simp: add_Nil_iff hd_add)
        then show ?thesis using d Xd by (intro add_nomatch) simp
      qed
      then show ?thesis using ih Aw R by simp
    qed
  qed
next
  case 1
  then show ?case by simp
next
  case (2 c)
  then show ?case by simp
qed

subsection \<open>Collapsing white space\<close>

lemma rwr_hd: "\<not> isWhiteSpace c \<Longrightarrow> replaceWhitespaceRuns (c # cs) = c # replaceWhitespaceRuns cs"
  by simp

lemma rwr_Nil_iff: "replaceWhitespaceRuns cs = [] \<longleftrightarrow> cs = []"
  by (cases cs) auto

lemma rwr_hd_nonws: "cs = [] \<or> \<not> isWhiteSpace (hd cs) \<Longrightarrow>
   replaceWhitespaceRuns cs = [] \<or> \<not> isWhiteSpace (hd (replaceWhitespaceRuns cs))"
  by (cases cs) auto

lemma dropWhile_hd: "dropWhile P xs = [] \<or> \<not> P (hd (dropWhile P xs))"
  by (metis hd_dropWhile)

lemma spaced_rwr: "spaced (replaceWhitespaceRuns s)"
proof (induction s rule: replaceWhitespaceRuns.induct)
  case 1
  show ?case by simp
next
  case (2 c cs)
  show ?case
  proof (cases "isWhiteSpace c")
    case True
    have "replaceWhitespaceRuns (dropWhile isWhiteSpace cs) = [] \<or>
          \<not> isWhiteSpace (hd (replaceWhitespaceRuns (dropWhile isWhiteSpace cs)))"
      by (rule rwr_hd_nonws) (rule dropWhile_hd)
    then show ?thesis using True "2.IH"(1) by (auto simp: spaced_Cons)
  next
    case False
    then show ?thesis using "2.IH"(2) by (simp add: spaced_Cons)
  qed
qed

lemma rwr_fixed: "spaced t \<Longrightarrow> replaceWhitespaceRuns t = t"
proof (induction t)
  case Nil
  show ?case by simp
next
  case (Cons c cs)
  then have sp: "spaced cs" by (simp add: spaced_Cons)
  show ?case
  proof (cases "isWhiteSpace c")
    case True
    with Cons.prems have "c = 0x20" "cs = [] \<or> \<not> isWhiteSpace (hd cs)"
      by (auto simp: spaced_Cons)
    then have "dropWhile isWhiteSpace cs = cs" by (cases cs) auto
    then show ?thesis using True \<open>c = 0x20\<close> Cons.IH sp by simp
  next
    case False
    then show ?thesis using Cons.IH sp by simp
  qed
qed

subsection \<open>Replacing single characters\<close>

lemma replaceDoubleQuotes_id: "replaceDoubleQuotes s = s"
  by (induction s) (auto simp: replaceDoubleQuotes_def)

lemma replaceSingleQuotes_id: "replaceSingleQuotes s = s"
  by (induction s) (auto simp: replaceSingleQuotes_def)

lemma replaceFormFeeds_fixed: "spaced s \<Longrightarrow> replaceFormFeeds s = s"
proof -
  assume sp: "spaced s"
  have "\<And>c. c \<in> set s \<Longrightarrow> (if c = 0x0C \<or> c = 0x0D then 0x20 else c) = c"
  proof -
    fix c assume "c \<in> set s"
    then have "isWhiteSpace c \<Longrightarrow> c = 0x20" using sp spaced_ws by blast
    then show "(if c = 0x0C \<or> c = 0x0D then 0x20 else c) = c"
      by (auto simp: isWhiteSpace_def)
  qed
  then show ?thesis unfolding replaceFormFeeds_def by (simp add: map_idI)
qed

lemma replaceBullets_fixed: "\<forall>c\<in>set s. plain c \<Longrightarrow> replaceBullets s = s"
  unfolding replaceBullets_def by (intro map_idI) (auto simp: plain_def)

lemma plain_replaceBullets: "\<forall>c\<in>set (replaceBullets s). plain c"
  by (auto simp: replaceBullets_def plain_def)

lemma spaced_map:
  assumes f: "\<And>c. isWhiteSpace (f c) = isWhiteSpace c" "f 0x20 = 0x20"
  shows "spaced s \<Longrightarrow> spaced (map f s)"
  by (induction s) (auto simp: spaced_Cons f hd_map)

lemma spaced_replaceBullets: "spaced s \<Longrightarrow> spaced (replaceBullets s)"
  unfolding replaceBullets_def
  by (rule spaced_map) (auto simp: isWhiteSpace_def)

subsection \<open>Removing white space before punctuation\<close>

lemma rm_Nil_iff: "removeSpaceBeforePunct cs = [] \<longleftrightarrow> cs = []"
  by (cases cs) (auto split: list.splits)

lemma set_rm: "set (removeSpaceBeforePunct cs) \<subseteq> set cs"
proof (induction cs rule: removeSpaceBeforePunct.induct)
  case 1
  show ?case by simp
next
  case (2 c cs)
  show ?case
  proof (cases "isWhiteSpace c")
    case False
    then show ?thesis using "2.IH"(4) by auto
  next
    case True
    show ?thesis
    proof (cases "dropWhile isWhiteSpace cs")
      case Nil
      then show ?thesis using True "2.IH"(1)[OF True Nil] by (auto simp: Nil)
    next
      case (Cons p rest)
      then have "set (p # rest) \<subseteq> set cs" by (metis set_dropWhileD subsetI)
      then show ?thesis using True "2.IH"(2)[OF True Cons] "2.IH"(3)[OF True Cons]
        by (cases "isPunct p") (auto simp: Cons)
    qed
  qed
qed

lemma spaced_tight_rm: "spaced v \<Longrightarrow> spaced (removeSpaceBeforePunct v) \<and> tight (removeSpaceBeforePunct v)"
proof (induction v rule: removeSpaceBeforePunct.induct)
  case 1
  show ?case by simp
next
  case (2 c cs)
  from "2.prems" have sp: "spaced cs" by (simp add: spaced_Cons)
  show ?case
  proof (cases "isWhiteSpace c")
    case False
    then show ?thesis using "2.IH"(4) sp by (simp add: spaced_Cons tight_Cons)
  next
    case True
    with "2.prems" have c: "c = 0x20" and hd: "cs = [] \<or> \<not> isWhiteSpace (hd cs)"
      by (auto simp: spaced_Cons)
    then have dw: "dropWhile isWhiteSpace cs = cs" by (cases cs) auto
    show ?thesis
    proof (cases cs)
      case Nil
      then show ?thesis using True c by simp
    next
      case (Cons p rest)
      with hd have p: "\<not> isWhiteSpace p" by simp
      from sp Cons have spr: "spaced rest" by (simp add: spaced_Cons)
      show ?thesis
      proof (cases "isPunct p")
        case pt: True
        have "spaced (removeSpaceBeforePunct rest) \<and> tight (removeSpaceBeforePunct rest)"
          using "2.IH"(2)[OF True] dw Cons pt spr by simp
        then show ?thesis using True Cons pt p by (simp add: spaced_Cons tight_Cons)
      next
        case pf: False
        have "spaced (removeSpaceBeforePunct cs) \<and> tight (removeSpaceBeforePunct cs)"
          using "2.IH"(3)[OF True] dw Cons pf sp by simp
        then show ?thesis using True Cons pf p c by (simp add: spaced_Cons tight_Cons)
      qed
    qed
  qed
qed

subsection \<open>Adding a space after punctuation\<close>

lemma ws_not_punct: "isWhiteSpace c \<Longrightarrow> \<not> isPunct c"
  using punct_not_ws by blast

lemma set_add: "set (addSpaceAfterPunct cs) \<subseteq> insert 0x20 (set cs)"
  by (induction cs rule: addSpaceAfterPunct.induct) auto

lemma spaced_add: "spaced w \<Longrightarrow> spaced (addSpaceAfterPunct w)"
proof (induction w rule: addSpaceAfterPunct.induct)
  case (3 c d cs)
  then show ?case
    by (auto simp: spaced_Cons hd_add add_Nil_iff space_ws dest: punct_not_ws
             simp del: addSpaceAfterPunct.simps(3))
       (auto simp: spaced_Cons hd_add add_Nil_iff space_ws dest: punct_not_ws)
qed simp_all

lemma add_ws_split: "isWhiteSpace w \<Longrightarrow>
   addSpaceAfterPunct (xs @ w # ys) = addSpaceAfterPunct xs @ w # addSpaceAfterPunct ys"
proof (induction xs rule: addSpaceAfterPunct.induct)
  case (3 c d cs)
  then show ?case by simp
next
  case 1
  then show ?case by (simp add: add_nonpunct ws_not_punct)
next
  case (2 c)
  then have "\<not> isPunct w" using punct_not_ws by blast
  then show ?case using 2 by (simp add: add_nonpunct)
qed

lemma add_all_ws: "\<forall>c\<in>set xs. isWhiteSpace c \<Longrightarrow> addSpaceAfterPunct xs = xs"
  by (induction xs) (auto simp: add_nonpunct ws_not_punct simp del: addSpaceAfterPunct.simps(3))

lemma add_ws_prefix: "\<forall>c\<in>set pre. isWhiteSpace c \<Longrightarrow>
   addSpaceAfterPunct (pre @ xs) = pre @ addSpaceAfterPunct xs"
  by (induction pre) (auto simp: add_nonpunct ws_not_punct simp del: addSpaceAfterPunct.simps)

lemma add_ws_suffix: "\<forall>c\<in>set post. isWhiteSpace c \<Longrightarrow>
   addSpaceAfterPunct (xs @ post) = addSpaceAfterPunct xs @ post"
  by (cases post) (auto simp: add_ws_split add_all_ws simp del: addSpaceAfterPunct.simps)

subsection \<open>Trimming\<close>

lemma dropWhile_id_hd: "xs \<noteq> [] \<Longrightarrow> \<not> P (hd xs) \<Longrightarrow> dropWhile P xs = xs"
  by (cases xs) simp_all

lemma trim_sandwich:
  assumes "\<forall>c\<in>set pre. isWhiteSpace c" "\<forall>c\<in>set post. isWhiteSpace c"
    and "m = [] \<or> (\<not> isWhiteSpace (hd m) \<and> \<not> isWhiteSpace (last m))"
  shows "trim (pre @ m @ post) = m"
proof (cases "m = []")
  case True
  then have "\<forall>c\<in>set (pre @ m @ post). isWhiteSpace c" using assms by auto
  then have dw: "dropWhile isWhiteSpace (pre @ m @ post) = []"
    by (simp only: dropWhile_eq_Nil_conv)
  show ?thesis unfolding trim_def dw using True by simp
next
  case False
  with assms(3) have hl: "\<not> isWhiteSpace (hd m)" "\<not> isWhiteSpace (last m)" by auto
  have m: "dropWhile isWhiteSpace (m @ post) = m @ post"
    using False hl(1) by (cases m) simp_all
  have "dropWhile isWhiteSpace (pre @ m @ post) = dropWhile isWhiteSpace (m @ post)"
    using assms(1) by (intro dropWhile_append2) simp
  with m have 1: "dropWhile isWhiteSpace (pre @ m @ post) = m @ post" by simp
  have "hd (rev m) = last m" using False by (simp add: hd_rev)
  then have r: "dropWhile isWhiteSpace (rev m) = rev m"
    using False hl(2) by (intro dropWhile_id_hd) simp_all
  have "dropWhile isWhiteSpace (rev post @ rev m) = dropWhile isWhiteSpace (rev m)"
    using assms(2) by (intro dropWhile_append2) simp
  with r have 2: "dropWhile isWhiteSpace (rev (m @ post)) = rev m" by simp
  show ?thesis unfolding trim_def 1 2 by simp
qed

lemma trim_decomp:
  "\<exists>pre post. xs = pre @ trim xs @ post \<and> (\<forall>c\<in>set pre. isWhiteSpace c) \<and>
      (\<forall>c\<in>set post. isWhiteSpace c) \<and>
      (trim xs = [] \<or> (\<not> isWhiteSpace (hd (trim xs)) \<and> \<not> isWhiteSpace (last (trim xs))))"
proof -
  define ys where "ys = dropWhile isWhiteSpace xs"
  define pre where "pre = takeWhile isWhiteSpace xs"
  define post where "post = rev (takeWhile isWhiteSpace (rev ys))"
  define t where "t = rev (dropWhile isWhiteSpace (rev ys))"
  have t: "trim xs = t" by (simp add: trim_def t_def ys_def)
  have 1: "xs = pre @ ys" by (simp add: pre_def ys_def)
  have "t @ post = rev (takeWhile isWhiteSpace (rev ys) @ dropWhile isWhiteSpace (rev ys))"
    unfolding t_def post_def by (simp only: rev_append)
  also have "\<dots> = ys" by (simp only: takeWhile_dropWhile_id rev_rev_ident)
  finally have 2: "ys = t @ post" by simp
  have 3: "\<forall>c\<in>set pre. isWhiteSpace c" by (auto simp: pre_def dest: set_takeWhileD)
  have 4: "\<forall>c\<in>set post. isWhiteSpace c" by (auto simp: post_def dest: set_takeWhileD)
  have 5: "t = [] \<or> (\<not> isWhiteSpace (hd t) \<and> \<not> isWhiteSpace (last t))"
  proof (cases "t = []")
    case False
    then have ne: "dropWhile isWhiteSpace (rev ys) \<noteq> []" by (simp add: t_def)
    have "last t = hd (dropWhile isWhiteSpace (rev ys))"
      using ne by (simp add: t_def last_rev)
    then have l: "\<not> isWhiteSpace (last t)" using ne by (simp add: hd_dropWhile)
    have "ys \<noteq> []" using 2 False by simp
    then have "\<not> isWhiteSpace (hd ys)" unfolding ys_def by (rule hd_dropWhile)
    moreover have "hd ys = hd t" using 2 False by simp
    ultimately show ?thesis using l by simp
  qed simp
  from 1 2 have "xs = pre @ t @ post" by simp
  with 3 4 5 show ?thesis unfolding t by blast
qed

lemma cleanText_shape:
  "\<exists>m. cleanText s = addSpaceAfterPunct m \<and> spaced m \<and> tight m \<and> (\<forall>c\<in>set m. plain c) \<and>
       (m = [] \<or> (\<not> isWhiteSpace (hd m) \<and> \<not> isWhiteSpace (last m)))"
proof -
  define u where "u = replaceBullets (replaceFormFeeds (replaceWhitespaceRuns s))"
  define v where "v = removeSpaceBeforePunct u"
  have "spaced (replaceWhitespaceRuns s)" by (rule spaced_rwr)
  then have su: "spaced u"
    unfolding u_def by (simp add: replaceFormFeeds_fixed spaced_replaceBullets)
  have pu: "\<forall>c\<in>set u. plain c" unfolding u_def by (rule plain_replaceBullets)
  have sv: "spaced v" and tv: "tight v" using spaced_tight_rm[OF su] by (simp_all add: v_def)
  have pv: "\<forall>c\<in>set v. plain c" using pu set_rm[of u] by (auto simp: v_def)
  have ct: "cleanText s = trim (addSpaceAfterPunct v)"
    by (simp add: cleanText_def v_def u_def replaceDoubleQuotes_id replaceSingleQuotes_id)
  obtain pre post where d: "v = pre @ trim v @ post"
    and pre: "\<forall>c\<in>set pre. isWhiteSpace c" and post: "\<forall>c\<in>set post. isWhiteSpace c"
    and ends: "trim v = [] \<or> (\<not> isWhiteSpace (hd (trim v)) \<and> \<not> isWhiteSpace (last (trim v)))"
    using trim_decomp[of v] by blast
  define m where "m = trim v"
  have d': "v = pre @ m @ post" using d by (simp add: m_def)
  have "addSpaceAfterPunct v = pre @ addSpaceAfterPunct m @ post"
    unfolding d' using pre post by (simp add: add_ws_prefix add_ws_suffix)
  moreover have "addSpaceAfterPunct m = [] \<or>
      (\<not> isWhiteSpace (hd (addSpaceAfterPunct m)) \<and> \<not> isWhiteSpace (last (addSpaceAfterPunct m)))"
    using ends by (cases "m = []") (auto simp: m_def hd_add last_add)
  ultimately have "trim (addSpaceAfterPunct v) = addSpaceAfterPunct m"
    using trim_sandwich[OF pre post] by simp
  moreover have "spaced m" "tight m"
    using sv tv spaced_append tight_append unfolding d' by blast+
  moreover have "\<forall>c\<in>set m. plain c" using pv unfolding d' by simp
  moreover have "m = [] \<or> (\<not> isWhiteSpace (hd m) \<and> \<not> isWhiteSpace (last m))"
    using ends by (simp add: m_def)
  ultimately show ?thesis using ct by (intro exI[of _ m]) simp
qed

lemma plain_space: "plain 0x20" by (simp add: plain_def)

text \<open>
  Claim C3.  The text normalizer is idempotent: cleaning a text that has been cleaned
  changes nothing, for every input string.
\<close>

theorem cleanText_idempotent: "cleanText (cleanText s) = cleanText s"
proof -
  obtain m where t: "cleanText s = addSpaceAfterPunct m"
    and sm: "spaced m" and tm: "tight m" and pm: "\<forall>c\<in>set m. plain c"
    and ends: "m = [] \<or> (\<not> isWhiteSpace (hd m) \<and> \<not> isWhiteSpace (last m))"
    using cleanText_shape[of s] by blast
  let ?t = "addSpaceAfterPunct m"
  have st: "spaced ?t" using sm by (rule spaced_add)
  have pt: "\<forall>c\<in>set ?t. plain c" using pm set_add[of m] plain_space by auto
  have 1: "replaceWhitespaceRuns ?t = ?t" using st by (rule rwr_fixed)
  have 2: "replaceFormFeeds ?t = ?t" using st by (rule replaceFormFeeds_fixed)
  have 3: "replaceBullets ?t = ?t" using pt by (rule replaceBullets_fixed)
  have 4: "addSpaceAfterPunct (removeSpaceBeforePunct ?t) = ?t" using sm tm by (rule add_rm_add)
  have e: "?t = [] \<or> (\<not> isWhiteSpace (hd ?t) \<and> \<not> isWhiteSpace (last ?t))"
    using ends by (cases "m = []") (auto simp: hd_add last_add)
  have 5: "trim ?t = ?t" using trim_sandwich[of "[]" "[]" ?t] e by simp
  have "cleanText ?t = ?t"
    unfolding cleanText_def 1 2 3 replaceDoubleQuotes_id replaceSingleQuotes_id 4 5 ..
  then show ?thesis by (simp add: t)
qed

section \<open>The scanned-document check\<close>

lemma scanned_ne_little: "scannedError \<noteq> littleTextError"
  by (simp add: scannedError_def littleTextError_def js_def)

lemma scanned_ne_parse_failure: "scannedError \<noteq> Error (js ''Failed to parse PDF: '' @ m)"
  by (simp add: scannedError_def js_def)

lemma scanned_ne_invalid: "scannedError \<noteq> invalidFormatError"
  by (simp add: scannedError_def invalidFormatError_def js_def)

lemma processForAI_scanned_iff:
  "processForAI parse buffer = Inl scannedError \<longleftrightarrow>
     validatePDFBuffer buffer \<and> isScannedPDF parse buffer"
proof (cases "validatePDFBuffer buffer \<and> \<not> isScannedPDF parse buffer")
  case True
  then obtain result where r: "extractText parse buffer = Inr result"
    by (cases "extractText parse buffer") (auto simp: isScannedPDF_def)
  show ?thesis using True r
    by (simp add: processForAI_def Let_def scanned_ne_little[symmetric])
next
  case False
  then show ?thesis
    by (auto simp: processForAI_def scanned_ne_invalid[symmetric])
qed


lemma sample_valid: "validatePDFBuffer sampleBuffer"
  by (simp add: validatePDFBuffer_def sampleBuffer_def)






lemma broken_extract:
  "extractText brokenPdf sampleBuffer = Inl (Error (js ''Failed to parse PDF: bad XRef entry''))"
  by (simp add: extractText_def brokenPdf_def errorMessage_def js_def)




text \<open>
  Claim C10.  For a buffer that begins with the signature and whose text extraction
  throws, \<^verbatim>\<open>isScannedPDF\<close> answers true, so \<^verbatim>\<open>processForAI\<close> fails with the
  scanned-document error and not with the error of the extraction.
\<close>

theorem extraction_failure_reported_as_scanned:
  "validatePDFBuffer buffer \<Longrightarrow> extractText parse buffer = Inl e \<Longrightarrow>
     isScannedPDF parse buffer \<and>
     processForAI parse buffer = Inl scannedError \<and>
     processForAI parse buffer \<noteq> Inl e"
proof -
  assume v: "validatePDFBuffer buffer" and x: "extractText parse buffer = Inl e"
  have s: "isScannedPDF parse buffer" using x by (simp add: isScannedPDF_def)
  then have p: "processForAI parse buffer = Inl scannedError"
    using v by (simp add: processForAI_scanned_iff)
  obtain m where "e = Error (js ''Failed to parse PDF: '' @ m)"
    using x by (auto simp: extractText_def split: sum.splits)
  then have "scannedError \<noteq> e" by (simp add: scanned_ne_parse_failure)
  with s p show ?thesis by simp
qed

text \<open>
  Claim C10, at a decoder that throws on a buffer with the signature.
\<close>

theorem extraction_failure_reported_as_scanned_witness:
  "validatePDFBuffer sampleBuffer \<and>
   extractText brokenPdf sampleBuffer = Inl (Error (js ''Failed to parse PDF: bad XRef entry'')) \<and>
   isScannedPDF brokenPdf sampleBuffer \<and>
   processForAI brokenPdf sampleBuffer = Inl scannedError \<and>
   processForAI brokenPdf sampleBuffer \<noteq> Inl (Error (js ''Failed to parse PDF: bad XRef entry''))"
  using extraction_failure_reported_as_scanned[OF sample_valid broken_extract]
    sample_valid broken_extract
  by blast

section \<open>The validator\<close>

subsection \<open>Literals, properties and conversions\<close>

lemma js_eq_iff: "js a = js b \<longleftrightarrow> a = b"
proof -
  have "inj (\<lambda>c::char. (word_of_nat (of_char c) :: 16 word))"
  proof (rule injI)
    fix x y :: char
    assume "(word_of_nat (of_char x) :: 16 word) = word_of_nat (of_char y)"
    then have "unat (word_of_nat (of_char x) :: 16 word) = unat (word_of_nat (of_char y) :: 16 word)"
      by simp
    moreover have "(of_char c :: nat) < 2 ^ 16" for c :: char
      using nat_of_char_less_256[of c] by (rule less_trans) simp
    ultimately have "(of_char x :: nat) = of_char y"
      by (simp add: unat_of_nat take_bit_nat_eq_self)
    then show "x = y" by simp
  qed
  then show ?thesis unfolding js_def by (simp add: inj_map_eq_map)
qed

lemma js_Nil_iff: "js s = [] \<longleftrightarrow> s = []"
  by (simp add: js_def)

lemma trim_Nil: "trim [] = []" by (simp add: trim_def)

lemma trim_A: "trim (js ''A'') = js ''A''" by (simp add: trim_def js_def isWhiteSpace_def)

lemma trim_blank: "trim (js '' '') = []" "trim (js ''  '') = []"
  by (simp_all add: trim_def js_def isWhiteSpace_def)

lemma trim_all_ws: "\<forall>ch\<in>set s. isWhiteSpace ch \<Longrightarrow> trim s = []"
proof -
  assume "\<forall>ch\<in>set s. isWhiteSpace ch"
  then have d: "dropWhile isWhiteSpace s = []" by (simp only: dropWhile_eq_Nil_conv)
  show ?thesis unfolding trim_def d by simp
qed

lemma getProp_Cons:
  "getProp (JObj ((k', v) # fs)) k = (if k = k' then v else getProp (JObj fs) k)"
  by (simp add: getProp_def)

lemma getProp_Nil: "getProp (JObj []) k = JUndefined"
  by (simp add: getProp_def)

lemma lower_undefined: "toLowerCase B (js ''undefined'') = js ''undefined''"
  by (simp add: toLowerCase_def js_def asciiLower_def)

lemma lower_seminar: "toLowerCase B (js ''seminar'') = js ''seminar''"
  by (simp add: toLowerCase_def js_def asciiLower_def)

lemma lower_urgent: "toLowerCase B (js ''urgent'') = js ''urgent''"
  by (simp add: toLowerCase_def js_def asciiLower_def)

lemma lower_EXAM: "toLowerCase B (js ''EXAM'') = js ''exam''"
  by (simp add: toLowerCase_def js_def asciiLower_def)

lemma lower_High: "toLowerCase B (js ''High'') = js ''high''"
  by (simp add: toLowerCase_def js_def asciiLower_def)

lemma jsString_primitive: "isPrimitive v \<Longrightarrow> \<exists>s. jsString B v = Inr s"
  by (cases v) (auto simp: isPrimitive_def)





lemma optionalTrimmed_undefined: "optionalTrimmed B JUndefined = Inr None"
  by (simp add: optionalTrimmed_def)

lemma optionalNumber_undefined: "optionalNumber B JUndefined = Inr None"
  by (simp add: optionalNumber_def)

lemma optionalTrimmed_None_iff:
  "optionalTrimmed B x = Inr r \<Longrightarrow> r = None \<longleftrightarrow> \<not> jsTruthy x"
  by (auto simp: optionalTrimmed_def split: if_splits sum.splits)

lemma optionalTrimmed_string:
  "optionalTrimmed B (JStr s) = Inr (if s = [] then None else Some (trim s))"
  by (simp add: optionalTrimmed_def stringTrim_def)


lemma dateRegex_example: "dateRegexTest (js ''2024-09-15'')" "dateRegexTest (js ''2024-09-16'')"
  "\<not> dateRegexTest (js ''not-a-date'')"
  by (simp_all add: js_def isDigit_def)

lemma date_example_parses: "dateTimeNotNaN (js ''2024-09-15'')"
  "dateTimeNotNaN (js ''2024-10-21'')" "dateTimeNotNaN (js ''2024-02-30'')"
  by (simp_all add: js_def twoDigits_def digitValue_def)





subsection \<open>Type and priority\<close>

lemma validTypes_set:
  "set validTypes = {js ''assignment'', js ''exam'', js ''reading'', js ''lecture'',
                     js ''project'', js ''quiz'', js ''other''}"
  by (simp add: validTypes_def)

lemma validPriorities_set: "set validPriorities = {js ''high'', js ''medium'', js ''low''}"
  by (simp add: validPriorities_def)

lemma validateEventType_member: "validateEventType B t = Inr r \<Longrightarrow> r \<in> set validTypes"
  by (auto simp: validateEventType_def Let_def validTypes_def split: sum.splits if_splits)

lemma validatePriority_member: "validatePriority B p = Inr r \<Longrightarrow> r \<in> set validPriorities"
  by (auto simp: validatePriority_def Let_def validPriorities_def split: sum.splits if_splits)

lemma validateEventType_of_string:
  "jsString B t = Inr s \<Longrightarrow>
     validateEventType B t =
       Inr (if toLowerCase B s \<in> set validTypes then toLowerCase B s else js ''other'')"
  by (simp add: validateEventType_def)

lemma validatePriority_of_string:
  "jsString B p = Inr s \<Longrightarrow>
     validatePriority B p =
       Inr (if toLowerCase B s \<in> set validPriorities then toLowerCase B s else js ''medium'')"
  by (simp add: validatePriority_def)

lemma validateEventType_primitive: "isPrimitive v \<Longrightarrow> \<exists>s. validateEventType B v = Inr s"
  using jsString_primitive[of v B] by (auto simp: validateEventType_def Let_def)

lemma validatePriority_primitive: "isPrimitive v \<Longrightarrow> \<exists>s. validatePriority B v = Inr s"
  using jsString_primitive[of v B] by (auto simp: validatePriority_def Let_def)

lemma validateEventType_undefined: "validateEventType B JUndefined = Inr (js ''other'')"
  by (simp add: validateEventType_def lower_undefined) (simp add: validTypes_def js_def)

lemma validatePriority_undefined: "validatePriority B JUndefined = Inr (js ''medium'')"
  by (simp add: validatePriority_def lower_undefined) (simp add: validPriorities_def js_def)

lemma lower_null: "toLowerCase B (js ''null'') = js ''null''"
  by (simp add: toLowerCase_def js_def asciiLower_def)

lemma validateEventType_null: "validateEventType B JNull = Inr (js ''other'')"
  by (simp add: validateEventType_def lower_null) (simp add: validTypes_def js_def)

lemma validatePriority_null: "validatePriority B JNull = Inr (js ''medium'')"
  by (simp add: validatePriority_def lower_null) (simp add: validPriorities_def js_def)

lemma seminar_unrecognized: "js ''seminar'' \<notin> set validTypes"
  by (simp add: validTypes_def js_eq_iff)

lemma urgent_unrecognized: "js ''urgent'' \<notin> set validPriorities"
  by (simp add: validPriorities_def js_eq_iff)

lemma exam_in_validTypes: "js ''exam'' \<in> set validTypes"
  by (simp add: validTypes_def)

lemma high_in_validPriorities: "js ''high'' \<in> set validPriorities"
  by (simp add: validPriorities_def)

lemma validateEventType_EXAM: "validateEventType B (JStr (js ''EXAM'')) = Inr (js ''exam'')"
  by (simp add: validateEventType_def lower_EXAM exam_in_validTypes)

lemma validatePriority_High: "validatePriority B (JStr (js ''High'')) = Inr (js ''high'')"
  by (simp add: validatePriority_def lower_High high_in_validPriorities)


subsection \<open>Building one event\<close>




lemma cleanedEvent_fields:
  assumes "cleanedEvent B k c = Inr e"
  shows "eventId e = generateEventId B k"
    and "stringTrim B (getProp c (js ''title'')) = Inr (title e)"
    and "optionalTrimmed B (getProp c (js ''time'')) = Inr (time e)"
    and "validateEventType B (getProp c (js ''type'')) = Inr (eventType e)"
    and "validatePriority B (getProp c (js ''priority'')) = Inr (priority e)"
    and "optionalTrimmed B (getProp c (js ''location'')) = Inr (location e)"
    and "\<exists>d. jsString B (getProp c (js ''date'')) = Inr d \<and> validateDate d = Inr (date e)"
  using assms unfolding cleanedEvent_def
  by (auto split: sum.splits)



lemma exam_cleaned: "cleanedEvent sampleBuiltins 0 examCandidate = Inr examEvent"
proof -
  have t: "trim (js ''Midterm'') = js ''Midterm''" "trim (js '' 09:30 '') = js ''09:30''"
    "trim (js ''Room 12'') = js ''Room 12''"
    by (simp_all add: trim_def js_def isWhiteSpace_def)
  have d: "dateRegexTest (js ''2024-10-21'')" by (simp add: js_def isDigit_def)
  have p: "dateTimeNotNaN (js ''2024-10-21'')"
    by (rule date_example_parses)
  show ?thesis
    using d p
    by (simp add: cleanedEvent_def examCandidate_def getProp_Cons getProp_Nil js_eq_iff
          stringTrim_def t trim_Nil validateDate_def isValidDateFormat_def
          optionalTrimmed_string js_Nil_iff validateEventType_EXAM validatePriority_High
          examEvent_def)
qed


subsection \<open>The loop and the result\<close>














lemma validate_empty_object: "validateAndCleanResult B (JObj []) = Inr emptyResult"
  by (simp add: validateAndCleanResult_def typeofObject_def getProp_Nil
        optionalTrimmed_undefined optionalNumber_undefined emptyResult_def)


subsection \<open>The properties of the validator\<close>




text \<open>
  Claim C5, as stated, at a valid candidate whose time is two spaces and whose location
  is one space: the event built carries both properties, each the empty string.
\<close>

theorem blank_time_kept_as_empty_string:
  "isValidEvent blankTimeCandidate \<and>
   cleanedEvent sampleBuiltins 0 blankTimeCandidate = Inr blankTimeEvent \<and>
   time blankTimeEvent = Some [] \<and> location blankTimeEvent = Some []"
proof -
  have 1: "isValidEvent blankTimeCandidate"
    using date_example_parses
    by (simp add: isValidEvent_def blankTimeCandidate_def getProp_Cons js_eq_iff trim_A
          js_Nil_iff isValidDateFormat_def dateRegex_example)
  have 2: "cleanedEvent sampleBuiltins 0 blankTimeCandidate = Inr blankTimeEvent"
    using date_example_parses
    by (simp add: cleanedEvent_def blankTimeCandidate_def getProp_Cons getProp_Nil js_eq_iff
          stringTrim_def trim_A trim_Nil trim_blank validateDate_def isValidDateFormat_def
          dateRegex_example optionalTrimmed_string js_Nil_iff
          validateEventType_undefined validatePriority_undefined blankTimeEvent_def)
  show ?thesis using 1 2 by (simp add: blankTimeEvent_def)
qed

text \<open>
  Claim C5, amended.  The event built from a candidate has no time exactly when the
  candidate's time is falsy (absent, null, the empty string, zero, false), and likewise
  for the location; a non-empty string is carried through trimmed, so a string of white
  space only is carried through as the empty string.
\<close>

theorem optional_fields_follow_truthiness:
  "cleanedEvent B k c = Inr e \<Longrightarrow>
     (time e = None \<longleftrightarrow> \<not> jsTruthy (getProp c (js ''time''))) \<and>
     (location e = None \<longleftrightarrow> \<not> jsTruthy (getProp c (js ''location''))) \<and>
     (\<forall>s. getProp c (js ''time'') = JStr s \<and> s \<noteq> [] \<longrightarrow> time e = Some (trim s)) \<and>
     (\<forall>s. getProp c (js ''location'') = JStr s \<and> s \<noteq> [] \<longrightarrow> location e = Some (trim s)) \<and>
     (\<forall>s. getProp c (js ''time'') = JStr s \<and> s \<noteq> [] \<and> (\<forall>ch\<in>set s. isWhiteSpace ch) \<longrightarrow>
          time e = Some []) \<and>
     (\<forall>s. getProp c (js ''location'') = JStr s \<and> s \<noteq> [] \<and> (\<forall>ch\<in>set s. isWhiteSpace ch) \<longrightarrow>
          location e = Some [])"
proof -
  assume e: "cleanedEvent B k c = Inr e"
  note t = cleanedEvent_fields(3)[OF e] and l = cleanedEvent_fields(6)[OF e]
  have 1: "time e = None \<longleftrightarrow> \<not> jsTruthy (getProp c (js ''time''))"
    using t by (rule optionalTrimmed_None_iff)
  have 2: "location e = None \<longleftrightarrow> \<not> jsTruthy (getProp c (js ''location''))"
    using l by (rule optionalTrimmed_None_iff)
  have 3: "time e = Some (trim s)" if "getProp c (js ''time'') = JStr s" "s \<noteq> []" for s
    using t that by (simp add: optionalTrimmed_string)
  have 4: "location e = Some (trim s)" if "getProp c (js ''location'') = JStr s" "s \<noteq> []" for s
    using l that by (simp add: optionalTrimmed_string)
  have 5: "time e = Some []"
    if "getProp c (js ''time'') = JStr s" "s \<noteq> []" "\<forall>ch\<in>set s. isWhiteSpace ch" for s
    using 3[OF that(1,2)] trim_all_ws[OF that(3)] by simp
  have 6: "location e = Some []"
    if "getProp c (js ''location'') = JStr s" "s \<noteq> []" "\<forall>ch\<in>set s. isWhiteSpace ch" for s
    using 4[OF that(1,2)] trim_all_ws[OF that(3)] by simp
  from 1 2 3 4 5 6 show ?thesis by blast
qed

text \<open>
  Claim C5, amended, at a candidate with the time \<^verbatim>\<open>" 09:30 "\<close> and the location
  \<^verbatim>\<open>"Room 12"\<close>.
\<close>

theorem optional_fields_follow_truthiness_witness:
  "cleanedEvent sampleBuiltins 0 examCandidate = Inr examEvent \<and>
   getProp examCandidate (js ''time'') = JStr (js '' 09:30 '') \<and>
   time examEvent = Some (trim (js '' 09:30 '')) \<and>
   getProp examCandidate (js ''location'') = JStr (js ''Room 12'') \<and>
   location examEvent = Some (trim (js ''Room 12''))"
proof -
  note t = optional_fields_follow_truthiness[OF exam_cleaned]
  have g: "getProp examCandidate (js ''time'') = JStr (js '' 09:30 '')"
    "getProp examCandidate (js ''location'') = JStr (js ''Room 12'')"
    by (simp_all add: examCandidate_def getProp_Cons js_eq_iff)
  have "time examEvent = Some (trim (js '' 09:30 ''))"
    using t g(1) by (simp add: js_Nil_iff)
  moreover have "location examEvent = Some (trim (js ''Room 12''))"
    using t g(2) by (simp add: js_Nil_iff)
  ultimately show ?thesis using exam_cleaned g by simp
qed

lemma jsString_ownToString: "jsString B ownToStringValue = Inl toPrimitiveError"
  by (simp add: ownToStringValue_def)

lemma validateEventType_throws_iff:
  "validateEventType B t = Inl e \<longleftrightarrow> jsString B t = Inl e"
  by (cases "jsString B t") (simp_all add: validateEventType_def Let_def)

lemma validatePriority_throws_iff:
  "validatePriority B p = Inl e \<longleftrightarrow> jsString B p = Inl e"
  by (cases "jsString B p") (simp_all add: validatePriority_def Let_def)

text \<open>
  Claim C6, as stated, at the value that \<^verbatim>\<open>{"toString": 1}\<close> parses to: as a type and
  as a priority it is coerced to no member of the sets, since \<^verbatim>\<open>String\<close> throws a
  TypeError on it; and a valid candidate that holds it as its type makes the construction
  of its event throw.
\<close>

theorem own_toString_type_throws:
  "validateEventType sampleBuiltins ownToStringValue = Inl toPrimitiveError \<and>
   validatePriority sampleBuiltins ownToStringValue = Inl toPrimitiveError \<and>
   isValidEvent ownToStringCandidate \<and>
   cleanedEvent sampleBuiltins 0 ownToStringCandidate = Inl toPrimitiveError"
proof -
  have 1: "validateEventType sampleBuiltins ownToStringValue = Inl toPrimitiveError"
    by (simp add: validateEventType_throws_iff jsString_ownToString)
  have 2: "validatePriority sampleBuiltins ownToStringValue = Inl toPrimitiveError"
    by (simp add: validatePriority_throws_iff jsString_ownToString)
  have 3: "isValidEvent ownToStringCandidate"
    using date_example_parses(1)
    by (simp add: isValidEvent_def ownToStringCandidate_def getProp_Cons js_eq_iff trim_A
          js_Nil_iff isValidDateFormat_def dateRegex_example)
  have 4: "cleanedEvent sampleBuiltins 0 ownToStringCandidate = Inl toPrimitiveError"
    using date_example_parses(1)
    by (simp add: cleanedEvent_def ownToStringCandidate_def getProp_Cons getProp_Nil js_eq_iff
          stringTrim_def trim_A trim_Nil validateDate_def isValidDateFormat_def
          dateRegex_example optionalTrimmed_undefined 1)
  from 1 2 3 4 show ?thesis by simp
qed

text \<open>
  Claim C6, amended.  For every value that \<^verbatim>\<open>String\<close> converts, which every string,
  number and boolean, \<^verbatim>\<open>null\<close> and a missing value are, the validator returns a type
  that is one of assignment, exam, reading, lecture, project, quiz, other, and a priority
  that is one of high, medium, low; the result is other (medium) when the lowercased
  string is not in the list: so for a missing or null value and for seminar (urgent).
  It throws exactly when \<^verbatim>\<open>String\<close> throws, and what it returns is always in the set.
  The type and the priority of every event built are in the sets.
\<close>

theorem type_and_priority_coerced:
  "(\<forall>r. validateEventType B t = Inr r \<longrightarrow>
        r \<in> {js ''assignment'', js ''exam'', js ''reading'', js ''lecture'', js ''project'',
             js ''quiz'', js ''other''}) \<and>
   (\<forall>r. validatePriority B p = Inr r \<longrightarrow> r \<in> {js ''high'', js ''medium'', js ''low''}) \<and>
   (\<forall>s. jsString B t = Inr s \<longrightarrow>
        (\<exists>r. validateEventType B t = Inr r) \<and>
        (toLowerCase B s \<notin> set validTypes \<longrightarrow> validateEventType B t = Inr (js ''other''))) \<and>
   (\<forall>s. jsString B p = Inr s \<longrightarrow>
        (\<exists>r. validatePriority B p = Inr r) \<and>
        (toLowerCase B s \<notin> set validPriorities \<longrightarrow>
           validatePriority B p = Inr (js ''medium''))) \<and>
   validateEventType B JUndefined = Inr (js ''other'') \<and>
   validatePriority B JUndefined = Inr (js ''medium'') \<and>
   validateEventType B JNull = Inr (js ''other'') \<and>
   validatePriority B JNull = Inr (js ''medium'') \<and>
   validateEventType B (JStr (js ''seminar'')) = Inr (js ''other'') \<and>
   validatePriority B (JStr (js ''urgent'')) = Inr (js ''medium'') \<and>
   (\<forall>k c e. cleanedEvent B k c = Inr e \<longrightarrow>
        eventType e \<in> set validTypes \<and> priority e \<in> set validPriorities) \<and>
   (isPrimitive t \<longrightarrow> (\<exists>r. validateEventType B t = Inr r)) \<and>
   (isPrimitive p \<longrightarrow> (\<exists>r. validatePriority B p = Inr r)) \<and>
   (\<forall>e. validateEventType B t = Inl e \<longleftrightarrow> jsString B t = Inl e) \<and>
   (\<forall>e. validatePriority B p = Inl e \<longleftrightarrow> jsString B p = Inl e)"
proof -
  have 1: "\<forall>r. validateEventType B t = Inr r \<longrightarrow>
        r \<in> {js ''assignment'', js ''exam'', js ''reading'', js ''lecture'', js ''project'',
             js ''quiz'', js ''other''}"
    using validateEventType_member[of B t] by (simp only: validTypes_set) blast
  have 2: "\<forall>r. validatePriority B p = Inr r \<longrightarrow> r \<in> {js ''high'', js ''medium'', js ''low''}"
    using validatePriority_member[of B p] by (simp only: validPriorities_set) blast
  have 3: "\<forall>s. jsString B t = Inr s \<longrightarrow>
        (\<exists>r. validateEventType B t = Inr r) \<and>
        (toLowerCase B s \<notin> set validTypes \<longrightarrow> validateEventType B t = Inr (js ''other''))"
    by (simp add: validateEventType_of_string)
  have 4: "\<forall>s. jsString B p = Inr s \<longrightarrow>
        (\<exists>r. validatePriority B p = Inr r) \<and>
        (toLowerCase B s \<notin> set validPriorities \<longrightarrow>
           validatePriority B p = Inr (js ''medium''))"
    by (simp add: validatePriority_of_string)
  have 5: "validateEventType B (JStr (js ''seminar'')) = Inr (js ''other'')"
    by (simp add: validateEventType_of_string lower_seminar seminar_unrecognized)
  have 6: "validatePriority B (JStr (js ''urgent'')) = Inr (js ''medium'')"
    by (simp add: validatePriority_of_string lower_urgent urgent_unrecognized)
  have 7: "\<forall>k c e. cleanedEvent B k c = Inr e \<longrightarrow>
        eventType e \<in> set validTypes \<and> priority e \<in> set validPriorities"
    using cleanedEvent_fields(4,5) validateEventType_member validatePriority_member by blast
  have 8: "isPrimitive t \<longrightarrow> (\<exists>r. validateEventType B t = Inr r)"
    using validateEventType_primitive by blast
  have 9: "isPrimitive p \<longrightarrow> (\<exists>r. validatePriority B p = Inr r)"
    using validatePriority_primitive by blast
  have 10: "\<forall>e. validateEventType B t = Inl e \<longleftrightarrow> jsString B t = Inl e"
    by (simp add: validateEventType_throws_iff)
  have 11: "\<forall>e. validatePriority B p = Inl e \<longleftrightarrow> jsString B p = Inl e"
    by (simp add: validatePriority_throws_iff)
  have general: "(\<forall>r. validateEventType B t = Inr r \<longrightarrow>
        r \<in> {js ''assignment'', js ''exam'', js ''reading'', js ''lecture'', js ''project'',
             js ''quiz'', js ''other''}) \<and>
     (\<forall>r. validatePriority B p = Inr r \<longrightarrow> r \<in> {js ''high'', js ''medium'', js ''low''}) \<and>
     (\<forall>s. jsString B t = Inr s \<longrightarrow>
        (\<exists>r. validateEventType B t = Inr r) \<and>
        (toLowerCase B s \<notin> set validTypes \<longrightarrow> validateEventType B t = Inr (js ''other''))) \<and>
     (\<forall>s. jsString B p = Inr s \<longrightarrow>
        (\<exists>r. validatePriority B p = Inr r) \<and>
        (toLowerCase B s \<notin> set validPriorities \<longrightarrow>
           validatePriority B p = Inr (js ''medium'')))"
    using 1 2 3 4 by blast
  have examples: "validateEventType B JUndefined = Inr (js ''other'') \<and>
     validatePriority B JUndefined = Inr (js ''medium'') \<and>
     validateEventType B JNull = Inr (js ''other'') \<and>
     validatePriority B JNull = Inr (js ''medium'') \<and>
     validateEventType B (JStr (js ''seminar'')) = Inr (js ''other'') \<and>
     validatePriority B (JStr (js ''urgent'')) = Inr (js ''medium'')"
    using 5 6 validateEventType_undefined[of B] validatePriority_undefined[of B]
      validateEventType_null[of B] validatePriority_null[of B]
    by simp
  from general examples 7 8 9 10 11 show ?thesis by blast
qed

text \<open>
  Claim C6, amended, at the type seminar, the priority urgent and the exam candidate.
\<close>

theorem type_and_priority_coerced_witness:
  "jsString sampleBuiltins (JStr (js ''seminar'')) = Inr (js ''seminar'') \<and>
   toLowerCase sampleBuiltins (js ''seminar'') \<notin> set validTypes \<and>
   validateEventType sampleBuiltins (JStr (js ''seminar'')) = Inr (js ''other'') \<and>
   jsString sampleBuiltins (JStr (js ''urgent'')) = Inr (js ''urgent'') \<and>
   toLowerCase sampleBuiltins (js ''urgent'') \<notin> set validPriorities \<and>
   validatePriority sampleBuiltins (JStr (js ''urgent'')) = Inr (js ''medium'') \<and>
   cleanedEvent sampleBuiltins 0 examCandidate = Inr examEvent \<and>
   eventType examEvent \<in> set validTypes \<and> priority examEvent \<in> set validPriorities"
proof -
  note t = type_and_priority_coerced[of sampleBuiltins "JStr (js ''seminar'')" "JStr (js ''urgent'')"]
  have a: "jsString sampleBuiltins (JStr (js ''seminar'')) = Inr (js ''seminar'')"
    and b: "jsString sampleBuiltins (JStr (js ''urgent'')) = Inr (js ''urgent'')"
    by simp_all
  have c: "toLowerCase sampleBuiltins (js ''seminar'') \<notin> set validTypes"
    by (simp add: lower_seminar seminar_unrecognized)
  have d: "toLowerCase sampleBuiltins (js ''urgent'') \<notin> set validPriorities"
    by (simp add: lower_urgent urgent_unrecognized)
  from t a c have e: "validateEventType sampleBuiltins (JStr (js ''seminar'')) = Inr (js ''other'')"
    by blast
  from t b d have f: "validatePriority sampleBuiltins (JStr (js ''urgent'')) = Inr (js ''medium'')"
    by blast
  from t exam_cleaned have g: "eventType examEvent \<in> set validTypes \<and> priority examEvent \<in> set validPriorities"
    by blast
  from a b c d e f g exam_cleaned show ?thesis by blast
qed

text \<open>
  Claim C9.  When the string of a type (priority) lowercases to a member of the list, the
  validator returns the lowercased string: EXAM gives exam, High gives high, and an event
  built from a candidate with such a type (priority) carries the lowercased string.
\<close>

theorem coercion_ignores_case:
  "(\<forall>s. jsString B t = Inr s \<and> toLowerCase B s \<in> set validTypes \<longrightarrow>
        validateEventType B t = Inr (toLowerCase B s)) \<and>
   (\<forall>s. jsString B p = Inr s \<and> toLowerCase B s \<in> set validPriorities \<longrightarrow>
        validatePriority B p = Inr (toLowerCase B s)) \<and>
   validateEventType B (JStr (js ''EXAM'')) = Inr (js ''exam'') \<and>
   validatePriority B (JStr (js ''High'')) = Inr (js ''high'') \<and>
   (\<forall>k c e s. cleanedEvent B k c = Inr e \<and> getProp c (js ''type'') = JStr s \<and>
        toLowerCase B s \<in> set validTypes \<longrightarrow> eventType e = toLowerCase B s) \<and>
   (\<forall>k c e s. cleanedEvent B k c = Inr e \<and> getProp c (js ''priority'') = JStr s \<and>
        toLowerCase B s \<in> set validPriorities \<longrightarrow> priority e = toLowerCase B s)"
proof -
  have 1: "\<forall>s. jsString B t = Inr s \<and> toLowerCase B s \<in> set validTypes \<longrightarrow>
        validateEventType B t = Inr (toLowerCase B s)"
    by (simp add: validateEventType_of_string)
  have 2: "\<forall>s. jsString B p = Inr s \<and> toLowerCase B s \<in> set validPriorities \<longrightarrow>
        validatePriority B p = Inr (toLowerCase B s)"
    by (simp add: validatePriority_of_string)
  have 3: "eventType e = toLowerCase B s"
    if "cleanedEvent B k c = Inr e" "getProp c (js ''type'') = JStr s"
      "toLowerCase B s \<in> set validTypes" for k c e s
    using cleanedEvent_fields(4)[OF that(1)] that(2,3)
    by (simp add: validateEventType_of_string)
  have 4: "priority e = toLowerCase B s"
    if "cleanedEvent B k c = Inr e" "getProp c (js ''priority'') = JStr s"
      "toLowerCase B s \<in> set validPriorities" for k c e s
    using cleanedEvent_fields(5)[OF that(1)] that(2,3)
    by (simp add: validatePriority_of_string)
  from 1 2 3 4 validateEventType_EXAM[of B] validatePriority_High[of B]
  show ?thesis by blast
qed

text \<open>
  Claim C9, at the type EXAM and the priority High of the exam candidate.
\<close>

theorem coercion_ignores_case_witness:
  "jsString sampleBuiltins (JStr (js ''EXAM'')) = Inr (js ''EXAM'') \<and>
   toLowerCase sampleBuiltins (js ''EXAM'') \<in> set validTypes \<and>
   validateEventType sampleBuiltins (JStr (js ''EXAM'')) = Inr (js ''exam'') \<and>
   jsString sampleBuiltins (JStr (js ''High'')) = Inr (js ''High'') \<and>
   toLowerCase sampleBuiltins (js ''High'') \<in> set validPriorities \<and>
   validatePriority sampleBuiltins (JStr (js ''High'')) = Inr (js ''high'') \<and>
   cleanedEvent sampleBuiltins 0 examCandidate = Inr examEvent \<and>
   eventType examEvent = js ''exam'' \<and> priority examEvent = js ''high''"
proof -
  note t = coercion_ignores_case[of sampleBuiltins "JStr (js ''EXAM'')" "JStr (js ''High'')"]
  have a: "jsString sampleBuiltins (JStr (js ''EXAM'')) = Inr (js ''EXAM'')"
    and b: "jsString sampleBuiltins (JStr (js ''High'')) = Inr (js ''High'')"
    by simp_all
  have c: "toLowerCase sampleBuiltins (js ''EXAM'') \<in> set validTypes"
    by (simp add: lower_EXAM exam_in_validTypes)
  have d: "toLowerCase sampleBuiltins (js ''High'') \<in> set validPriorities"
    by (simp add: lower_High high_in_validPriorities)
  have g: "getProp examCandidate (js ''type'') = JStr (js ''EXAM'')"
    "getProp examCandidate (js ''priority'') = JStr (js ''High'')"
    by (simp_all add: examCandidate_def getProp_Cons js_eq_iff)
  from t exam_cleaned g(1) c have e: "eventType examEvent = toLowerCase sampleBuiltins (js ''EXAM'')"
    by blast
  from t exam_cleaned g(2) d have f: "priority examEvent = toLowerCase sampleBuiltins (js ''High'')"
    by blast
  from t have "validateEventType sampleBuiltins (JStr (js ''EXAM'')) = Inr (js ''exam'')"
    and "validatePriority sampleBuiltins (JStr (js ''High'')) = Inr (js ''high'')"
    by blast+
  with a b c d e f exam_cleaned show ?thesis by (simp add: lower_EXAM lower_High)
qed

section \<open>The prompt and the model calls\<close>

lemma fallback_model: "model (fallbackRequest p) = js ''gpt-3.5-turbo''"
  "userContent (fallbackRequest p) = p" "model (primaryRequest p) = js ''gpt-4''"
  "userContent (primaryRequest p) = p"
  by (simp_all add: fallbackRequest_def primaryRequest_def)

lemma last_footer: "last promptFooter = 0x2E"
  by (simp add: promptFooter_def js_def)

lemma footer_ne: "promptFooter \<noteq> []"
  by (simp add: promptFooter_def js_def)

lemma suffix_last: "suffix xs ys \<Longrightarrow> xs \<noteq> [] \<Longrightarrow> last xs = last ys"
  by (auto simp: suffix_def)

lemma suffix_header: "suffix (js ''Syllabus text:\<newline>'') promptHeader"
  unfolding promptHeader_def js_def suffix_def by (simp flip: map_append)


text \<open>
  Claim C4, as stated, at the text \<^verbatim>\<open>x\<close>: the prompt does not end with the text.
\<close>

theorem prompt_does_not_end_with_text:
  "\<not> suffix (js ''x'') (createExtractionPrompt (js ''x''))"
proof
  assume "suffix (js ''x'') (createExtractionPrompt (js ''x''))"
  then have "last (js ''x'') = last (createExtractionPrompt (js ''x''))"
    by (rule suffix_last) (simp add: js_def)
  also have "\<dots> = last promptFooter"
    by (simp add: createExtractionPrompt_def footer_ne)
  finally show False by (simp add: last_footer js_def)
qed

text \<open>
  Claim C4, amended.  The prompt is the fixed header, which ends with the line
  \<^verbatim>\<open>Syllabus text:\<close>, then the text character for character, then the fixed closing
  instruction to return only JSON.  The builder is a function of the text alone; the
  prompt it returns is what the request to the model carries.
\<close>

theorem prompt_embeds_text_before_closing_instruction:
  \<open>createExtractionPrompt s = promptHeader @ s @ promptFooter \<and>
   suffix (js ''Syllabus text:\<newline>'') promptHeader \<and>
   promptFooter =
     js ''\<newline>\<newline>Return only valid JSON, no additional text or explanations.'' \<and>
   take (length promptHeader) (createExtractionPrompt s) = promptHeader \<and>
   take (length s) (drop (length promptHeader) (createExtractionPrompt s)) = s \<and>
   drop (length promptHeader + length s) (createExtractionPrompt s) = promptFooter \<and>
   userContent (primaryRequest (createExtractionPrompt s)) = createExtractionPrompt s\<close>
  using suffix_header
  by (simp add: createExtractionPrompt_def promptFooter_def fallback_model)

lemma primaryAttempt_sent:
  "snd (primaryAttempt B service sent syllabus) =
     sent @ [primaryRequest (createExtractionPrompt syllabus)]"
  by (simp add: primaryAttempt_def Let_def)

lemma extractEvents_sent:
  "snd (extractEvents B service sent syllabus) =
     sent @ [primaryRequest (createExtractionPrompt syllabus)]"
  using primaryAttempt_sent[of B service sent syllabus]
  by (cases "primaryAttempt B service sent syllabus")
     (auto simp: extractEvents_def split: sum.splits)

lemma fallbackAttempt_sent:
  "snd (fallbackAttempt B service sent syllabus) =
     sent @ [fallbackRequest (createExtractionPrompt syllabus)]"
  by (simp add: fallbackAttempt_def Let_def)

lemma extractEvents_fst:
  "fst (extractEvents B service sent syllabus) =
     (case fst (primaryAttempt B service sent syllabus) of
        Inr r \<Rightarrow> Inr r
      | Inl error \<Rightarrow> Inl (Error (js ''Failed to process syllabus: '' @ errorMessage error)))"
  by (cases "primaryAttempt B service sent syllabus")
     (auto simp: extractEvents_def split: sum.splits)

lemma withFallback_success:
  "fst (extractEvents B service sent syllabus) = Inr r \<Longrightarrow>
     extractEventsWithFallback B service sent syllabus =
       (Inr r, sent @ [primaryRequest (createExtractionPrompt syllabus)])"
  using extractEvents_sent[of B service sent syllabus]
  by (cases "extractEvents B service sent syllabus")
     (auto simp: extractEventsWithFallback_def)

lemma withFallback_failure:
  assumes "fst (extractEvents B service sent syllabus) = Inl e"
  shows "extractEventsWithFallback B service sent syllabus =
     (case fst (fallbackAttempt B service
                  (sent @ [primaryRequest (createExtractionPrompt syllabus)]) syllabus) of
        Inr r \<Rightarrow> Inr r
      | Inl fallbackError \<Rightarrow> Inl processingFailedError,
      sent @ [primaryRequest (createExtractionPrompt syllabus),
              fallbackRequest (createExtractionPrompt syllabus)])"
proof -
  let ?p = "createExtractionPrompt syllabus"
  have x: "extractEvents B service sent syllabus = (Inl e, sent @ [primaryRequest ?p])"
    using assms extractEvents_sent[of B service sent syllabus]
    by (cases "extractEvents B service sent syllabus") simp
  obtain o' l where f: "fallbackAttempt B service (sent @ [primaryRequest ?p]) syllabus = (o', l)"
    by (cases "fallbackAttempt B service (sent @ [primaryRequest ?p]) syllabus")
  have l: "l = sent @ [primaryRequest ?p, fallbackRequest ?p]"
    using fallbackAttempt_sent[of B service "sent @ [primaryRequest ?p]" syllabus] f by simp
  show ?thesis
    by (cases o') (simp_all add: extractEventsWithFallback_def x f l)
qed

lemma failed_ne_wrapped: "processingFailedError \<noteq> Error (js ''Failed to process syllabus: '' @ m)"
  by (simp add: processingFailedError_def js_def)

lemma failing_primary:
  "fst (extractEvents B failingService sent syllabus) =
     Inl (Error (js ''Failed to process syllabus: 500 upstream''))"
  by (simp add: extractEvents_fst primaryAttempt_def Let_def failingService_def fallback_model
        errorMessage_def js_def)

lemma failing_fallback:
  "fst (fallbackAttempt B failingService sent syllabus) = Inl (Error (js ''429 quota''))"
  by (simp add: fallbackAttempt_def Let_def failingService_def fallback_model js_eq_iff)

lemma not_wrapped: "\<not> wrapsCause processingFailedError (Error (js ''429 quota''))"
proof
  assume "wrapsCause processingFailedError (Error (js ''429 quota''))"
  then have "set (js ''429 quota'') \<subseteq> set (errorMessage processingFailedError)"
    unfolding wrapsCause_def errorMessage_def by (auto dest: set_mono_sublist)
  then show False
    by (simp add: errorMessage_def processingFailedError_def js_def)
qed

lemma primary_malformed:
  assumes "service sent (primaryRequest (createExtractionPrompt syllabus)) = Inr (Some content)"
    and "content \<noteq> []"
    and "(\<exists>parseError. jsonParse B content = Inl parseError) \<or>
         (\<exists>v e. jsonParse B content = Inr v \<and> validateAndCleanResult B v = Inl e)"
  shows "\<exists>e. fst (primaryAttempt B service sent syllabus) = Inl e"
  using assms by (auto simp: primaryAttempt_def Let_def)

lemma sample_jsonParse: "jsonParse sampleBuiltins = sampleJsonParse"
  by (simp add: sampleBuiltins_def)

lemma malformed_service_primary:
  "malformedThenEmptyService sent (primaryRequest p) = Inr (Some (js ''I cannot read this syllabus''))"
  by (simp add: malformedThenEmptyService_def fallback_model)

lemma malformed_service_fallback:
  "fst (fallbackAttempt sampleBuiltins malformedThenEmptyService sent syllabus) = Inr emptyResult"
  by (simp add: fallbackAttempt_def Let_def malformedThenEmptyService_def fallback_model
        js_eq_iff js_Nil_iff sample_jsonParse sampleJsonParse_def validate_empty_object)


text \<open>
  Claim C2, as stated, at a service that fails the primary call with the message
  \<^verbatim>\<open>500 upstream\<close> and the fallback call with \<^verbatim>\<open>429 quota\<close>: the error surfaced
  does not contain the message of the fallback's cause.
\<close>

theorem fallback_cause_not_surfaced:
  "fst (extractEvents sampleBuiltins failingService [] (js ''CS 101'')) =
     Inl (Error (js ''Failed to process syllabus: 500 upstream'')) \<and>
   fst (fallbackAttempt sampleBuiltins failingService
          [primaryRequest (createExtractionPrompt (js ''CS 101''))] (js ''CS 101'')) =
     Inl (Error (js ''429 quota'')) \<and>
   fst (extractEventsWithFallback sampleBuiltins failingService [] (js ''CS 101'')) =
     Inl processingFailedError \<and>
   \<not> wrapsCause processingFailedError (Error (js ''429 quota''))"
  using failing_primary[of sampleBuiltins "[]" "js ''CS 101''"]
    failing_fallback[of sampleBuiltins "[primaryRequest (createExtractionPrompt (js ''CS 101''))]"
      "js ''CS 101''"]
    not_wrapped
  by (simp add: withFallback_failure)

text \<open>
  Claim C2, amended.  When the primary attempt fails, exactly one more request is made,
  to the secondary model and with the same prompt; the result of that attempt is returned
  when it succeeds, and when it fails the error surfaced is the fixed error
  \<^verbatim>\<open>AI processing failed. Please try again or check your syllabus format.\<close>, whatever
  the cause.
\<close>

theorem single_fallback_with_same_prompt:
  "fst (extractEvents B service sent syllabus) = Inl e \<Longrightarrow>
     snd (extractEventsWithFallback B service sent syllabus) =
       sent @ [primaryRequest (createExtractionPrompt syllabus),
               fallbackRequest (createExtractionPrompt syllabus)] \<and>
     model (fallbackRequest (createExtractionPrompt syllabus)) = js ''gpt-3.5-turbo'' \<and>
     userContent (fallbackRequest (createExtractionPrompt syllabus)) =
       userContent (primaryRequest (createExtractionPrompt syllabus)) \<and>
     (\<forall>cause. fst (fallbackAttempt B service
                     (sent @ [primaryRequest (createExtractionPrompt syllabus)]) syllabus) = Inl cause \<longrightarrow>
        fst (extractEventsWithFallback B service sent syllabus) = Inl processingFailedError) \<and>
     (\<forall>r. fst (fallbackAttempt B service
                 (sent @ [primaryRequest (createExtractionPrompt syllabus)]) syllabus) = Inr r \<longrightarrow>
        fst (extractEventsWithFallback B service sent syllabus) = Inr r) \<and>
     processingFailedError =
       Error (js ''AI processing failed. Please try again or check your syllabus format.'')"
proof -
  assume primary: "fst (extractEvents B service sent syllabus) = Inl e"
  let ?p = "createExtractionPrompt syllabus"
  let ?f = "fst (fallbackAttempt B service (sent @ [primaryRequest ?p]) syllabus)"
  note w = withFallback_failure[OF primary]
  have requests: "snd (extractEventsWithFallback B service sent syllabus) =
      sent @ [primaryRequest ?p, fallbackRequest ?p]"
    by (simp add: w)
  have secondary: "model (fallbackRequest ?p) = js ''gpt-3.5-turbo''"
    and same: "userContent (fallbackRequest ?p) = userContent (primaryRequest ?p)"
    by (simp_all add: fallback_model)
  have failure: "fst (extractEventsWithFallback B service sent syllabus) = Inl processingFailedError"
    if "?f = Inl cause" for cause
    using that by (simp add: w)
  have success: "fst (extractEventsWithFallback B service sent syllabus) = Inr r"
    if "?f = Inr r" for r
    using that by (simp add: w)
  have fixed: "processingFailedError =
      Error (js ''AI processing failed. Please try again or check your syllabus format.'')"
    by (simp add: processingFailedError_def)
  from requests secondary same failure success fixed show ?thesis by blast
qed

text \<open>
  Claim C2, amended, at the service that fails both calls.
\<close>

theorem single_fallback_with_same_prompt_witness:
  "fst (extractEvents sampleBuiltins failingService [] (js ''CS 101'')) =
     Inl (Error (js ''Failed to process syllabus: 500 upstream'')) \<and>
   snd (extractEventsWithFallback sampleBuiltins failingService [] (js ''CS 101'')) =
     [primaryRequest (createExtractionPrompt (js ''CS 101'')),
      fallbackRequest (createExtractionPrompt (js ''CS 101''))] \<and>
   fst (fallbackAttempt sampleBuiltins failingService
          ([] @ [primaryRequest (createExtractionPrompt (js ''CS 101''))]) (js ''CS 101'')) =
     Inl (Error (js ''429 quota'')) \<and>
   fst (extractEventsWithFallback sampleBuiltins failingService [] (js ''CS 101'')) =
     Inl processingFailedError"
proof -
  note p = failing_primary[of sampleBuiltins "[]" "js ''CS 101''"]
  note t = single_fallback_with_same_prompt[OF p]
  note f = failing_fallback[of sampleBuiltins
      "[] @ [primaryRequest (createExtractionPrompt (js ''CS 101''))]" "js ''CS 101''"]
  from t have 1: "snd (extractEventsWithFallback sampleBuiltins failingService [] (js ''CS 101'')) =
     [] @ [primaryRequest (createExtractionPrompt (js ''CS 101'')),
      fallbackRequest (createExtractionPrompt (js ''CS 101''))]" by (rule conjunct1)
  from t f have 2: "fst (extractEventsWithFallback sampleBuiltins failingService [] (js ''CS 101'')) =
     Inl processingFailedError" by blast
  from p 1 2 f show ?thesis by simp
qed

text \<open>
  Claim C8.  When the primary model's reply is received but does not parse, or parses to
  a value the validator refuses, the fallback request is made and the outcome is that of
  the fallback attempt: its result when it succeeds, the fixed error when it fails.  The
  error of the primary attempt is never the outcome.
\<close>

theorem malformed_primary_reply_falls_back:
  "service sent (primaryRequest (createExtractionPrompt syllabus)) = Inr (Some content) \<Longrightarrow>
   content \<noteq> [] \<Longrightarrow>
   (\<exists>parseError. jsonParse B content = Inl parseError) \<or>
   (\<exists>v e. jsonParse B content = Inr v \<and> validateAndCleanResult B v = Inl e) \<Longrightarrow>
     snd (extractEventsWithFallback B service sent syllabus) =
       sent @ [primaryRequest (createExtractionPrompt syllabus),
               fallbackRequest (createExtractionPrompt syllabus)] \<and>
     fst (extractEventsWithFallback B service sent syllabus) =
       (case fst (fallbackAttempt B service
                    (sent @ [primaryRequest (createExtractionPrompt syllabus)]) syllabus) of
          Inr r \<Rightarrow> Inr r
        | Inl fallbackError \<Rightarrow> Inl processingFailedError) \<and>
     fst (extractEventsWithFallback B service sent syllabus) \<noteq>
       fst (extractEvents B service sent syllabus) \<and>
     (\<forall>e. fst (extractEventsWithFallback B service sent syllabus) = Inl e \<longrightarrow>
        (\<exists>cause. fst (fallbackAttempt B service
                        (sent @ [primaryRequest (createExtractionPrompt syllabus)]) syllabus) =
                   Inl cause))"
proof -
  assume a: "service sent (primaryRequest (createExtractionPrompt syllabus)) = Inr (Some content)"
    "content \<noteq> []"
    "(\<exists>parseError. jsonParse B content = Inl parseError) \<or>
     (\<exists>v e. jsonParse B content = Inr v \<and> validateAndCleanResult B v = Inl e)"
  from primary_malformed[of service sent syllabus content B, OF a] obtain e0 where e0: "fst (primaryAttempt B service sent syllabus) = Inl e0"
    by blast
  then have x: "fst (extractEvents B service sent syllabus) =
      Inl (Error (js ''Failed to process syllabus: '' @ errorMessage e0))"
    by (simp add: extractEvents_fst)
  note w = withFallback_failure[OF x]
  let ?f = "fst (fallbackAttempt B service
                    (sent @ [primaryRequest (createExtractionPrompt syllabus)]) syllabus)"
  have 1: "snd (extractEventsWithFallback B service sent syllabus) =
       sent @ [primaryRequest (createExtractionPrompt syllabus),
               fallbackRequest (createExtractionPrompt syllabus)]"
    by (simp add: w)
  have 2: "fst (extractEventsWithFallback B service sent syllabus) =
       (case ?f of Inr r \<Rightarrow> Inr r | Inl fallbackError \<Rightarrow> Inl processingFailedError)"
    by (simp add: w)
  have 3: "fst (extractEventsWithFallback B service sent syllabus) \<noteq>
       fst (extractEvents B service sent syllabus)"
    unfolding 2 x by (cases ?f) (simp_all add: failed_ne_wrapped)
  have 4: "\<forall>e. fst (extractEventsWithFallback B service sent syllabus) = Inl e \<longrightarrow>
        (\<exists>cause. ?f = Inl cause)"
    unfolding 2 by (cases ?f) simp_all
  from 1 2 3 4 show ?thesis by blast
qed

text \<open>
  Claim C8, at a service whose primary reply is not JSON and whose fallback reply is
  \<^verbatim>\<open>{}\<close>.
\<close>

theorem malformed_primary_reply_falls_back_witness:
  "malformedThenEmptyService [] (primaryRequest (createExtractionPrompt (js ''CS 101''))) =
     Inr (Some (js ''I cannot read this syllabus'')) \<and>
   js ''I cannot read this syllabus'' \<noteq> [] \<and>
   jsonParse sampleBuiltins (js ''I cannot read this syllabus'') =
     Inl (Error (js ''Unexpected token'')) \<and>
   snd (extractEventsWithFallback sampleBuiltins malformedThenEmptyService [] (js ''CS 101'')) =
     [primaryRequest (createExtractionPrompt (js ''CS 101'')),
      fallbackRequest (createExtractionPrompt (js ''CS 101''))] \<and>
   fst (extractEventsWithFallback sampleBuiltins malformedThenEmptyService [] (js ''CS 101'')) =
     Inr emptyResult"
proof -
  have a: "malformedThenEmptyService [] (primaryRequest (createExtractionPrompt (js ''CS 101''))) =
     Inr (Some (js ''I cannot read this syllabus''))"
    by (rule malformed_service_primary)
  have b: "js ''I cannot read this syllabus'' \<noteq> []" by (simp add: js_Nil_iff)
  have c: "jsonParse sampleBuiltins (js ''I cannot read this syllabus'') =
     Inl (Error (js ''Unexpected token''))"
    by (simp add: sample_jsonParse sampleJsonParse_def js_eq_iff)
  then have d: "(\<exists>parseError. jsonParse sampleBuiltins (js ''I cannot read this syllabus'') = Inl parseError) \<or>
     (\<exists>v e. jsonParse sampleBuiltins (js ''I cannot read this syllabus'') = Inr v \<and>
            validateAndCleanResult sampleBuiltins v = Inl e)"
    by blast
  note t = malformed_primary_reply_falls_back[of malformedThenEmptyService "[]" "js ''CS 101''"
      "js ''I cannot read this syllabus''" sampleBuiltins, OF a b d]
  note f = malformed_service_fallback[of "[primaryRequest (createExtractionPrompt (js ''CS 101''))]"
      "js ''CS 101''"]
  from t have 1: "snd (extractEventsWithFallback sampleBuiltins malformedThenEmptyService [] (js ''CS 101'')) =
     [] @ [primaryRequest (createExtractionPrompt (js ''CS 101'')),
      fallbackRequest (createExtractionPrompt (js ''CS 101''))]" by (rule conjunct1)
  from t have "fst (extractEventsWithFallback sampleBuiltins malformedThenEmptyService [] (js ''CS 101'')) =
       (case fst (fallbackAttempt sampleBuiltins malformedThenEmptyService
                    ([] @ [primaryRequest (createExtractionPrompt (js ''CS 101''))]) (js ''CS 101'')) of
          Inr r \<Rightarrow> Inr r
        | Inl fallbackError \<Rightarrow> Inl processingFailedError)"
    by (rule conjunct2[THEN conjunct1])
  then have 2: "fst (extractEventsWithFallback sampleBuiltins malformedThenEmptyService [] (js ''CS 101'')) =
     Inr emptyResult" by (simp add: f)
  from a b c 1 2 show ?thesis by simp
qed

end
